theory Spec2Isabelle
  imports Complex_Main
begin

section \<open>Numbers, errors and results\<close>

text \<open>
  Python integers are \<^typ>\<open>int\<close>.  A Python \<open>float\<close> is an IEEE 754 binary64 number,
  held here as the real number it denotes.  In the two strategies and in
  \<open>numpy.linspace\<close> every arithmetic operation on floats is followed by \<open>fl\<close>, the
  rounding to the nearest binary64 number with ties to even, and every decimal literal
  of the source is the rounding of its decimal value; comparisons are exact.  Overflow
  to infinity and NaN are outside the model.  The data generator, the downloader and
  the price statistics are written on the reals without rounding, except that the
  generator takes its phases from \<open>numpy.linspace\<close>.

  A raised exception is a value: an operation on a strategy returns \<open>Inr s\<close> when it
  returns normally in state \<open>s\<close>, and \<open>Inl (e, s)\<close> when exception \<open>e\<close> propagates out of
  it, \<open>s\<close> being the state the object has at that moment (orders submitted before the
  raise stay submitted).
\<close>

datatype py_error = ZeroDivisionError | TypeError | ValueError

type_synonym 's outcome = "(py_error \<times> 's) + 's"

definition state_of :: "'s outcome \<Rightarrow> 's" where
  "state_of r = (case r of Inl (e, s) \<Rightarrow> s | Inr s \<Rightarrow> s)"

text \<open>Rounding to the nearest integer, a tie going to the even neighbour.\<close>

definition round_half_even :: "real \<Rightarrow> int" where
  "round_half_even y =
     (let f = \<lfloor>y\<rfloor>; r = y - of_int f
      in if r < 1 / 2 then f else if 1 / 2 < r then f + 1 else if even f then f else f + 1)"

text \<open>
  The binary exponent at which a nonzero \<open>x\<close> is stored: that of its leading bit, and
  \<open>-1022\<close> for the subnormal numbers.  \<open>fl x\<close> rounds \<open>x\<close> to a multiple of the unit in
  the last of 53 places at that exponent.
\<close>

definition binade :: "real \<Rightarrow> int" where
  "binade x = max \<lfloor>log 2 \<bar>x\<bar>\<rfloor> (- 1022)"

definition fl :: "real \<Rightarrow> real" where
  "fl x =
     (if x = 0 then 0
      else of_int (round_half_even (x / 2 powr of_int (binade x - 52)))
           * 2 powr of_int (binade x - 52))"

text \<open>
  The value of the decimal string that \<open>f"{x:.6f}"\<close> or \<open>f"{x:.2f}"\<close> produces: the
  exact value of the float, rounded to \<open>d\<close> decimals with ties to even.
\<close>

definition render :: "nat \<Rightarrow> real \<Rightarrow> real" where
  "render d x = of_int (round_half_even (x * 10 ^ d)) / 10 ^ d"

text \<open>
  \<open>numpy.linspace(start, stop, num)\<close> with the default \<open>endpoint=True\<close>, as numpy
  computes it.  A negative \<open>num\<close> raises \<open>ValueError\<close>.  With \<open>divisor = num - 1\<close> and
  \<open>delta = stop - start\<close>, the samples are \<open>i * step + start\<close> for \<open>step = delta / divisor\<close>
  (or \<open>(i / divisor) * delta + start\<close> when the step underflows to zero), and for
  \<open>num > 1\<close> the last sample is overwritten with \<open>stop\<close>.  The indices \<open>i\<close> and
  the divisor are exact as floats for every array that fits in memory.
\<close>

definition linspace :: "real \<Rightarrow> real \<Rightarrow> int \<Rightarrow> py_error + real list" where
  "linspace start stop num =
     (if num < 0 then Inl ValueError
      else
        let n = nat num;
            divisor = real_of_int (num - 1);
            delta = fl (stop - start)
        in if 0 < num - 1 then
             let step = fl (delta / divisor);
                 y = (if step = 0
                      then map (\<lambda>i. fl (fl (fl (real i / divisor) * delta) + start)) [0 ..< n]
                      else map (\<lambda>i. fl (fl (real i * step) + start)) [0 ..< n])
             in Inr (y [n - 1 := stop])
           else Inr (map (\<lambda>i. fl (fl (real i * delta) + start)) [0 ..< n]))"

section \<open>Orders, fills and quotes of the trading platform\<close>

datatype OrderSide = BUY | SELL

text \<open>
  A limit order as handed to \<open>submit_order\<close>.  \<open>o_quantity\<close> and \<open>o_price\<close> are the
  decimal values of the platform's \<open>Quantity\<close> and \<open>Price\<close> objects, which the
  strategies make from the renderings \<open>f"{quantity:.6f}"\<close> and \<open>f"{price:.2f}"\<close>.
  The client order id is the one the platform's order factory assigns: the number of
  orders it has made so far.
\<close>

record limit_order =
  o_side :: OrderSide
  o_quantity :: real
  o_price :: real
  o_post_only :: bool
  o_client_order_id :: nat

text \<open>
  The platform's part in making an order, \<open>Quantity.from_str\<close>, \<open>Price.from_str\<close>
  and \<open>order_factory.limit\<close>, is code of the platform.  It is taken as a parameter:
  a predicate that says, for a side, a rendered quantity and a rendered price, whether
  the order is made (otherwise \<open>ValueError\<close> is raised, as the platform does for a
  quantity that is not positive).  \<open>positive_quantity\<close> is the predicate that refuses
  exactly the quantities that are not positive.
\<close>

type_synonym order_check = "OrderSide \<Rightarrow> real \<Rightarrow> real \<Rightarrow> bool"

definition positive_quantity :: order_check where
  "positive_quantity side quantity price = (0 < quantity)"

text \<open>
  A fill event, with \<open>last_px\<close> and \<open>last_qty\<close> already converted as the handlers do
  first, \<open>float(event.last_px)\<close> and \<open>float(event.last_qty)\<close>.  A quote, with its bid
  and ask as the decimals \<open>as_decimal()\<close> returns.
\<close>

record OrderFilled =
  client_order_id :: nat
  order_side :: OrderSide
  last_px :: real
  last_qty :: real

record QuoteTick =
  tick_bid_price :: real
  tick_ask_price :: real

section \<open>GridStrategy (src/strategies/grid.py)\<close>

text \<open>
  Code outside the repository that the strategy calls, fixed for the life of the
  object: the platform's order factory, and numpy's \<open>log\<close> and \<open>exp\<close>, whose results
  are not determined in the last place by the IEEE standard.
\<close>

record libraries =
  order_factory :: order_check
  np_log :: "real \<Rightarrow> real"
  np_exp :: "real \<Rightarrow> real"

record GridStrategy =
  libs :: libraries
  grid_levels :: int
  grid_spacing_type :: string
  upper_price :: "real option"
  lower_price :: "real option"
  price_range_ratio :: real
  total_amount :: real
  post_only :: bool
  grid_prices :: "real list"
  grid_orders :: "real \<rightharpoonup> nat"
  filled_grids :: "real set"
  active_orders :: "nat \<rightharpoonup> real"
  total_trades :: nat
  winning_trades :: nat
  total_pnl :: real
  order_count :: nat
  submitted :: "limit_order list"

record GridStrategyConfig =
  cfg_total_amount :: real
  cfg_grid_levels :: int
  cfg_grid_spacing_type :: string
  cfg_upper_price :: "real option"
  cfg_lower_price :: "real option"
  cfg_price_range_ratio :: real
  cfg_post_only :: bool

text \<open>\<open>GridStrategy.__init__\<close>; no order has been made or submitted yet.\<close>

definition GridStrategy_init :: "GridStrategyConfig \<Rightarrow> libraries \<Rightarrow> GridStrategy" where
  "GridStrategy_init config libraries =
     \<lparr> libs = libraries,
       grid_levels = cfg_grid_levels config,
       grid_spacing_type = cfg_grid_spacing_type config,
       upper_price = cfg_upper_price config,
       lower_price = cfg_lower_price config,
       price_range_ratio = cfg_price_range_ratio config,
       total_amount = cfg_total_amount config,
       post_only = cfg_post_only config,
       grid_prices = [],
       grid_orders = Map.empty,
       filled_grids = {},
       active_orders = Map.empty,
       total_trades = 0,
       winning_trades = 0,
       total_pnl = 0,
       order_count = 0,
       submitted = [] \<rparr>"

text \<open>
  \<open>_calculate_grid_prices\<close>.  A bound that is still \<open>None\<close> makes numpy raise
  \<open>TypeError\<close>.  The geometric branch is meaningful for positive bounds only.
\<close>

definition calculate_grid_prices :: "GridStrategy \<Rightarrow> GridStrategy outcome" where
  "calculate_grid_prices s =
     (case lower_price s of
        None \<Rightarrow> Inl (TypeError, s)
      | Some lo \<Rightarrow>
         (case upper_price s of
            None \<Rightarrow> Inl (TypeError, s)
          | Some up \<Rightarrow>
             (if grid_spacing_type s = ''arithmetic'' then
                (case linspace lo up (grid_levels s) of
                   Inl e \<Rightarrow> Inl (e, s)
                 | Inr ps \<Rightarrow> Inr (s\<lparr>grid_prices := ps\<rparr>))
              else
                (case linspace (np_log (libs s) lo) (np_log (libs s) up) (grid_levels s) of
                   Inl e \<Rightarrow> Inl (e, s)
                 | Inr log_prices \<Rightarrow>
                     Inr (s\<lparr>grid_prices := map (np_exp (libs s)) log_prices\<rparr>)))))"

text \<open>
  \<open>_place_grid_order\<close>: both branches of the quantity expression are \<open>amount / price\<close>,
  which raises \<open>ZeroDivisionError\<close> at price zero.  The order is made from the
  renderings of the quantity and of the price; when the platform refuses it,
  \<open>ValueError\<close> leaves the method before anything is submitted or recorded.
  Otherwise the order is submitted and recorded in both maps under the float price.
\<close>

definition place_grid_order ::
  "GridStrategy \<Rightarrow> real \<Rightarrow> OrderSide \<Rightarrow> real \<Rightarrow> GridStrategy outcome" where
  "place_grid_order s price side amount =
     (if price = 0 then Inl (ZeroDivisionError, s)
      else
        let quantity = (if side = BUY then fl (amount / price) else fl (amount / price))
        in if \<not> order_factory (libs s) side (render 6 quantity) (render 2 price)
           then Inl (ValueError, s)
           else
             let order = \<lparr> o_side = side, o_quantity = render 6 quantity,
                           o_price = render 2 price, o_post_only = post_only s,
                           o_client_order_id = order_count s \<rparr>
             in Inr (s\<lparr> order_count := order_count s + 1,
                        submitted := submitted s @ [order],
                        grid_orders := (grid_orders s)(price \<mapsto> o_client_order_id order),
                        active_orders := (active_orders s)(o_client_order_id order \<mapsto> price) \<rparr>))"

text \<open>
  The loop of \<open>_setup_initial_orders\<close> over the grid prices, from the first price not
  yet visited.  The test of the 0.1% band divides by the current price.
\<close>

fun setup_loop :: "real \<Rightarrow> real \<Rightarrow> real list \<Rightarrow> GridStrategy \<Rightarrow> GridStrategy outcome" where
  "setup_loop current_price amount_per_grid [] s = Inr s"
| "setup_loop current_price amount_per_grid (grid_price # rest) s =
     (if current_price = 0 then Inl (ZeroDivisionError, s)
      else if fl (\<bar>fl (grid_price - current_price)\<bar> / current_price) < fl 0.001 then
        setup_loop current_price amount_per_grid rest s
      else if grid_price < current_price then
        (case place_grid_order s grid_price BUY amount_per_grid of
           Inl err \<Rightarrow> Inl err
         | Inr s' \<Rightarrow> setup_loop current_price amount_per_grid rest s')
      else if grid_price > current_price then
        (if grid_price = 0 then Inl (ZeroDivisionError, s)
         else
           (case place_grid_order s grid_price SELL amount_per_grid of
              Inl err \<Rightarrow> Inl err
            | Inr s' \<Rightarrow> setup_loop current_price amount_per_grid rest s'))
      else setup_loop current_price amount_per_grid rest s)"

definition setup_initial_orders :: "GridStrategy \<Rightarrow> real \<Rightarrow> GridStrategy outcome" where
  "setup_initial_orders s current_price =
     (if grid_levels s = 0 then Inl (ZeroDivisionError, s)
      else setup_loop current_price (fl (total_amount s / real_of_int (grid_levels s)))
             (grid_prices s) s)"

text \<open>
  The mid price as both strategies compute it from a quote:
  \<open>float(ask.as_decimal() + bid.as_decimal()) / 2\<close>.
\<close>

definition mid_price :: "QuoteTick \<Rightarrow> real" where
  "mid_price q = fl (fl (tick_ask_price q + tick_bid_price q) / 2)"

text \<open>
  \<open>_initialize_grid\<close>, the timer callback.  Its argument is the quote the cache holds,
  if any; without one the callback only re-arms the timer.
\<close>

definition initialize_grid :: "GridStrategy \<Rightarrow> QuoteTick option \<Rightarrow> GridStrategy outcome" where
  "initialize_grid s last_quote =
     (case last_quote of
        None \<Rightarrow> Inr s
      | Some q \<Rightarrow>
         let current_price = mid_price q;
             s1 = (if upper_price s = None \<or> lower_price s = None then
                     let price_range = fl (current_price * price_range_ratio s)
                     in s\<lparr> upper_price := Some (fl (current_price + fl (price_range / 2))),
                           lower_price := Some (fl (current_price - fl (price_range / 2))) \<rparr>
                   else s)
         in (case calculate_grid_prices s1 of
               Inl err \<Rightarrow> Inl err
             | Inr s2 \<Rightarrow> setup_initial_orders s2 current_price))"

text \<open>
  \<open>_find_next_grid_price\<close>: the first price of the scanned list that passes the
  threshold and is not a key of \<open>grid_orders\<close>.  Direction \<open>"up"\<close> scans the grid
  list as it is, any other direction scans it reversed.  The thresholds are the float
  products \<open>current_price * 1.001\<close> and \<open>current_price * 0.999\<close>.
\<close>

fun scan_up :: "(real \<rightharpoonup> nat) \<Rightarrow> real \<Rightarrow> real list \<Rightarrow> real option" where
  "scan_up orders current_price [] = None"
| "scan_up orders current_price (price # rest) =
     (if price > fl (current_price * fl 1.001) \<and> orders price = None then Some price
      else scan_up orders current_price rest)"

fun scan_down :: "(real \<rightharpoonup> nat) \<Rightarrow> real \<Rightarrow> real list \<Rightarrow> real option" where
  "scan_down orders current_price [] = None"
| "scan_down orders current_price (price # rest) =
     (if price < fl (current_price * fl 0.999) \<and> orders price = None then Some price
      else scan_down orders current_price rest)"

definition find_next_grid_price :: "GridStrategy \<Rightarrow> real \<Rightarrow> string \<Rightarrow> real option" where
  "find_next_grid_price s current_price direction =
     (if direction = ''up'' then scan_up (grid_orders s) current_price (grid_prices s)
      else scan_down (grid_orders s) current_price (rev (grid_prices s)))"

text \<open>
  \<open>on_order_filled\<close>.  A fill whose order id is not in \<open>active_orders\<close> changes
  nothing.  \<open>if target_price:\<close> is false for \<open>None\<close> and for the price \<open>0.0\<close>.
\<close>

definition on_order_filled :: "GridStrategy \<Rightarrow> OrderFilled \<Rightarrow> GridStrategy outcome" where
  "on_order_filled s event =
     (let filled_price = last_px event;
          filled_qty = last_qty event
      in case active_orders s (client_order_id event) of
           None \<Rightarrow> Inr s
         | Some grid_price \<Rightarrow>
            let s1 = s\<lparr> active_orders := (active_orders s)(client_order_id event := None),
                        total_trades := total_trades s + 1 \<rparr>
            in if order_side event = BUY then
                 (case find_next_grid_price s1 filled_price ''up'' of
                    None \<Rightarrow> Inr s1
                  | Some target_price \<Rightarrow>
                     if target_price = 0 then Inr s1
                     else place_grid_order s1 target_price SELL
                            (fl (filled_qty * target_price)))
               else
                 (case find_next_grid_price s1 filled_price ''down'' of
                    None \<Rightarrow> Inr s1
                  | Some target_price \<Rightarrow>
                     if target_price = 0 then Inr s1
                     else place_grid_order s1 target_price BUY
                            (fl (filled_qty * filled_price))))"

text \<open>
  \<open>on_quote_tick\<close> only logs a warning; the result says whether it did.  The bounds
  are read left to right, so an unset upper bound raises \<open>TypeError\<close>, and an unset
  lower bound does when the first comparison is false.
\<close>

definition on_quote_tick :: "GridStrategy \<Rightarrow> QuoteTick \<Rightarrow> py_error + bool" where
  "on_quote_tick s tick =
     (let mid = mid_price tick
      in case upper_price s of
           None \<Rightarrow> Inl TypeError
         | Some up \<Rightarrow>
            if mid > fl (up * fl 0.95) then Inr True
            else (case lower_price s of
                    None \<Rightarrow> Inl TypeError
                  | Some lo \<Rightarrow> Inr (mid < fl (lo * fl 1.05))))"

text \<open>
  \<open>on_stop\<close> logs three figures and cancels the open orders at the platform; the
  strategy's own state is unchanged.  The win rate is logged as a percentage.
\<close>

record stop_report =
  logged_total_trades :: nat
  logged_win_rate :: real
  logged_total_pnl :: real

definition on_stop :: "GridStrategy \<Rightarrow> stop_report" where
  "on_stop s =
     \<lparr> logged_total_trades = total_trades s,
       logged_win_rate =
         fl (fl (real (winning_trades s) / real (max (total_trades s) 1)) * 100),
       logged_total_pnl = total_pnl s \<rparr>"

text \<open>
  \<open>reset\<close> clears the three containers and the counters.  The grid prices and the
  bounds are kept; what \<open>super().reset()\<close> does belongs to the platform.
\<close>

definition reset :: "GridStrategy \<Rightarrow> GridStrategy" where
  "reset s = s\<lparr> grid_orders := Map.empty,
                filled_grids := {},
                active_orders := Map.empty,
                total_trades := 0,
                winning_trades := 0,
                total_pnl := 0 \<rparr>"

text \<open>
  The callbacks the platform can deliver to a running strategy, and a run: the
  callbacks are handled one at a time, and the run ends at the first exception.  The
  timer that \<open>on_start\<close> sets with \<open>set_timer\<close> fires again after every interval, so
  \<open>Init_grid\<close> can occur more than once in a run.
\<close>

datatype grid_event =
    Init_grid "QuoteTick option"
  | Order_filled OrderFilled
  | Quote_tick QuoteTick
  | Stop
  | Reset

definition grid_step :: "GridStrategy \<Rightarrow> grid_event \<Rightarrow> GridStrategy outcome" where
  "grid_step s ev =
     (case ev of
        Init_grid q \<Rightarrow> initialize_grid s q
      | Order_filled f \<Rightarrow> on_order_filled s f
      | Quote_tick t \<Rightarrow> (case on_quote_tick s t of Inl e \<Rightarrow> Inl (e, s) | Inr w \<Rightarrow> Inr s)
      | Stop \<Rightarrow> Inr s
      | Reset \<Rightarrow> Inr (reset s))"

fun grid_run :: "GridStrategy \<Rightarrow> grid_event list \<Rightarrow> GridStrategy outcome" where
  "grid_run s [] = Inr s"
| "grid_run s (ev # evs) =
     (case grid_step s ev of Inl err \<Rightarrow> Inl err | Inr s' \<Rightarrow> grid_run s' evs)"

subsection \<open>Three small runs\<close>

text \<open>
  The libraries used in the concrete runs below: an order factory that refuses exactly
  the quantities that are not positive, and correctly rounded \<open>log\<close> and \<open>exp\<close>.
\<close>

definition plain_libraries :: libraries where
  "plain_libraries =
     \<lparr> order_factory = positive_quantity,
       np_log = (\<lambda>x. fl (ln x)),
       np_exp = (\<lambda>x. fl (exp x)) \<rparr>"

text \<open>
  Three configurations and the fills delivered to them.  In the first, four levels
  from 1000 to 1006 are started at mid price 1005, so that the two upper levels lie
  within 0.1% of the mid price and get no initial order; its fills are a partial fill
  of the BUY at 1002, the fill of the SELL that replaces it, and the fill of the BUY at
  1000.  In the second, three levels from 100 to 120 are started at mid price 110.  In
  the third, the levels 1000, 1001 and 1002 are started at mid price 1001.5, and the
  BUY at 1000 is filled.
\<close>

definition tight_config :: GridStrategyConfig where
  "tight_config =
     \<lparr> cfg_total_amount = 4000, cfg_grid_levels = 4, cfg_grid_spacing_type = ''arithmetic'',
       cfg_upper_price = Some 1006, cfg_lower_price = Some 1000,
       cfg_price_range_ratio = fl 0.1, cfg_post_only = True \<rparr>"

definition tight_quote :: QuoteTick where
  "tight_quote = \<lparr> tick_bid_price = 1004.5, tick_ask_price = 1005.5 \<rparr>"

definition tight_started :: GridStrategy where
  "tight_started =
     state_of (grid_run (GridStrategy_init tight_config plain_libraries)
       [Init_grid (Some tight_quote)])"


definition tight_fill_2 :: OrderFilled where
  "tight_fill_2 = \<lparr> client_order_id = 2, order_side = SELL, last_px = 1004, last_qty = 0.5 \<rparr>"

definition tight_fill_0 :: OrderFilled where
  "tight_fill_0 = \<lparr> client_order_id = 0, order_side = BUY, last_px = 1000, last_qty = 1 \<rparr>"


definition tight_placed :: GridStrategy where
  "tight_placed = state_of (place_grid_order tight_started 1004 SELL 502)"

definition wide_config :: GridStrategyConfig where
  "wide_config =
     \<lparr> cfg_total_amount = 300, cfg_grid_levels = 3, cfg_grid_spacing_type = ''arithmetic'',
       cfg_upper_price = Some 120, cfg_lower_price = Some 100,
       cfg_price_range_ratio = fl 0.1, cfg_post_only = True \<rparr>"

definition wide_quote :: QuoteTick where
  "wide_quote = \<lparr> tick_bid_price = 109.5, tick_ask_price = 110.5 \<rparr>"

definition wide_started :: GridStrategy where
  "wide_started =
     state_of (grid_run (GridStrategy_init wide_config plain_libraries)
       [Init_grid (Some wide_quote)])"

definition wide_sell_fill :: OrderFilled where
  "wide_sell_fill = \<lparr> client_order_id = 1, order_side = SELL, last_px = 120, last_qty = 0.5 \<rparr>"






section \<open>SimpleGridStrategy (src/strategies/simple_grid.py)\<close>

record SimpleGridStrategyConfig =
  scfg_total_amount :: real
  scfg_upper_price :: real
  scfg_lower_price :: real
  scfg_grid_levels :: int

record SimpleGridStrategy =
  sg_order_factory :: order_check
  sg_total_amount :: real
  sg_grid_levels :: int
  sg_upper_price :: real
  sg_lower_price :: real
  sg_grid_prices :: "real list"
  orders_placed :: bool
  sg_order_count :: nat
  sg_submitted :: "limit_order list"

text \<open>\<open>SimpleGridStrategy.__init__\<close>, with the order factory of the platform.\<close>

definition SimpleGridStrategy_init ::
  "SimpleGridStrategyConfig \<Rightarrow> order_check \<Rightarrow> SimpleGridStrategy" where
  "SimpleGridStrategy_init config factory =
     \<lparr> sg_order_factory = factory,
       sg_total_amount = scfg_total_amount config,
       sg_grid_levels = scfg_grid_levels config,
       sg_upper_price = scfg_upper_price config,
       sg_lower_price = scfg_lower_price config,
       sg_grid_prices = [],
       orders_placed = False,
       sg_order_count = 0,
       sg_submitted = [] \<rparr>"

text \<open>\<open>on_start\<close> computes the grid prices at once, from the configured bounds.\<close>

definition simple_on_start :: "SimpleGridStrategy \<Rightarrow> SimpleGridStrategy outcome" where
  "simple_on_start s =
     (case linspace (sg_lower_price s) (sg_upper_price s) (sg_grid_levels s) of
        Inl e \<Rightarrow> Inl (e, s)
      | Inr ps \<Rightarrow> Inr (s\<lparr>sg_grid_prices := ps\<rparr>))"

text \<open>
  The loop of \<open>_place_initial_orders\<close>.  A grid price within 10 of the current price
  is skipped; a grid price below it gets a BUY order with \<open>post_only=False\<close>; a grid
  price above it gets nothing.  The division \<open>amount_per_grid / grid_price\<close> raises at
  grid price zero, and the platform raises \<open>ValueError\<close> when it refuses the order;
  either ends the loop with the orders submitted so far.
\<close>

fun simple_place_loop ::
  "real \<Rightarrow> real \<Rightarrow> real list \<Rightarrow> SimpleGridStrategy \<Rightarrow> SimpleGridStrategy outcome" where
  "simple_place_loop current_price amount_per_grid [] s = Inr s"
| "simple_place_loop current_price amount_per_grid (grid_price # rest) s =
     (if \<bar>fl (grid_price - current_price)\<bar> < 10 then
        simple_place_loop current_price amount_per_grid rest s
      else if grid_price < current_price then
        (if grid_price = 0 then Inl (ZeroDivisionError, s)
         else
           let quantity = fl (amount_per_grid / grid_price)
           in if \<not> sg_order_factory s BUY (render 6 quantity) (render 2 grid_price)
              then Inl (ValueError, s)
              else
                let order = \<lparr> o_side = BUY, o_quantity = render 6 quantity,
                              o_price = render 2 grid_price, o_post_only = False,
                              o_client_order_id = sg_order_count s \<rparr>
                in simple_place_loop current_price amount_per_grid rest
                     (s\<lparr> sg_order_count := sg_order_count s + 1,
                         sg_submitted := sg_submitted s @ [order] \<rparr>))
      else simple_place_loop current_price amount_per_grid rest s)"

text \<open>
  \<open>_place_initial_orders\<close>: \<open>amount_per_grid\<close> is computed before the loop and raises
  \<open>ZeroDivisionError\<close> for zero levels.
\<close>

definition place_initial_orders :: "SimpleGridStrategy \<Rightarrow> QuoteTick \<Rightarrow> SimpleGridStrategy outcome" where
  "place_initial_orders s tick =
     (let current_price = mid_price tick
      in if sg_grid_levels s = 0 then Inl (ZeroDivisionError, s)
         else simple_place_loop current_price
                (fl (sg_total_amount s / real_of_int (sg_grid_levels s))) (sg_grid_prices s) s)"

text \<open>
  \<open>on_quote_tick\<close> acts on the first quote only; the flag is set before the orders
  are placed.  \<open>on_order_filled\<close> only logs.  \<open>reset\<close> clears the flag.
\<close>

definition simple_on_quote_tick :: "SimpleGridStrategy \<Rightarrow> QuoteTick \<Rightarrow> SimpleGridStrategy outcome" where
  "simple_on_quote_tick s tick =
     (if \<not> orders_placed s then place_initial_orders (s\<lparr>orders_placed := True\<rparr>) tick
      else Inr s)"

definition simple_on_order_filled :: "SimpleGridStrategy \<Rightarrow> OrderFilled \<Rightarrow> SimpleGridStrategy" where
  "simple_on_order_filled s event = s"

definition simple_reset :: "SimpleGridStrategy \<Rightarrow> SimpleGridStrategy" where
  "simple_reset s = s\<lparr>orders_placed := False\<rparr>"

text \<open>The callbacks of the simple strategy, and a run of them.\<close>

datatype simple_event =
    Simple_start
  | Simple_quote QuoteTick
  | Simple_filled OrderFilled
  | Simple_stop
  | Simple_reset

definition simple_step :: "SimpleGridStrategy \<Rightarrow> simple_event \<Rightarrow> SimpleGridStrategy outcome" where
  "simple_step s ev =
     (case ev of
        Simple_start \<Rightarrow> simple_on_start s
      | Simple_quote t \<Rightarrow> simple_on_quote_tick s t
      | Simple_filled f \<Rightarrow> Inr (simple_on_order_filled s f)
      | Simple_stop \<Rightarrow> Inr s
      | Simple_reset \<Rightarrow> Inr (simple_reset s))"

fun simple_run :: "SimpleGridStrategy \<Rightarrow> simple_event list \<Rightarrow> SimpleGridStrategy outcome" where
  "simple_run s [] = Inr s"
| "simple_run s (ev # evs) =
     (case simple_step s ev of Inl err \<Rightarrow> Inl err | Inr s' \<Rightarrow> simple_run s' evs)"

text \<open>
  The configuration of the simple synthetic backtest (\<open>simple_grid_backtest.py\<close>:
  1000 USDT over 41500 to 42500 in 5 levels), the same with no capital, a quote with
  mid price 42000, and a Grid Strategy configuration over the same range.
\<close>

definition smoke_config :: SimpleGridStrategyConfig where
  "smoke_config =
     \<lparr> scfg_total_amount = 1000, scfg_upper_price = 42500, scfg_lower_price = 41500,
       scfg_grid_levels = 5 \<rparr>"

definition empty_handed_config :: SimpleGridStrategyConfig where
  "empty_handed_config =
     \<lparr> scfg_total_amount = 0, scfg_upper_price = 42500, scfg_lower_price = 41500,
       scfg_grid_levels = 5 \<rparr>"

definition smoke_quote :: QuoteTick where
  "smoke_quote = \<lparr> tick_bid_price = 41999.5, tick_ask_price = 42000.5 \<rparr>"

definition smoke_started :: SimpleGridStrategy where
  "smoke_started =
     state_of (simple_on_start (SimpleGridStrategy_init smoke_config positive_quantity))"


section \<open>Live launcher (run_grid_strategy.py)\<close>

text \<open>
  \<open>str.lower()\<close> on the bytes of the string: the ASCII capitals are mapped to their
  small letters and every other byte is kept.  No character outside ASCII lower-cases
  to \<open>y\<close>, \<open>e\<close> or \<open>s\<close>, so the comparison with \<open>"yes"\<close> is decided as in Python.
\<close>

definition lower_char :: "char \<Rightarrow> char" where
  "lower_char c =
     (let n = (of_char c :: nat)
      in if 65 \<le> n \<and> n \<le> 90 then char_of (n + 32) else c)"

definition lower :: "string \<Rightarrow> string" where
  "lower s = map lower_char s"

text \<open>
  A parsed configuration document, as far as the launcher reads it: the sections it
  has, each with the keys present in it.  A read \<open>yaml_config[section][key]\<close>
  raises (\<open>KeyError\<close>, or \<open>TypeError\<close> where the section is no mapping) unless the
  section and the key are there.
\<close>

type_synonym yaml_document = "(string \<times> string list) list"

definition has_section :: "yaml_document \<Rightarrow> string \<Rightarrow> bool" where
  "has_section doc section = (case map_of doc section of None \<Rightarrow> False | Some keys \<Rightarrow> True)"

definition has_key :: "yaml_document \<Rightarrow> string \<Rightarrow> string \<Rightarrow> bool" where
  "has_key doc section key =
     (case map_of doc section of None \<Rightarrow> False | Some keys \<Rightarrow> key \<in> set keys)"

text \<open>
  The parsed command line, and what the launcher can observe of its surroundings: the
  line typed at the prompt (\<open>None\<close> at end of input), which paths exist, what
  \<open>load_strategy_config\<close> returns for a path (\<open>None\<close> where opening or parsing
  raises), and the process environment.
\<close>

record launcher_args =
  arg_config :: string
  arg_testnet :: bool
  arg_mainnet :: bool

record launcher_world =
  typed_line :: "string option"
  path_exists :: "string \<Rightarrow> bool"
  config_document :: "string \<Rightarrow> yaml_document option"
  environ :: "string \<rightharpoonup> string"

text \<open>
  What the launcher does, in order.  Console output is recorded by kind, not by text.
  \<open>Uncaught_exception\<close> ends the trace where an exception leaves \<open>main\<close>.
\<close>

datatype launcher_effect =
    Print_mainnet_warning
  | Read_input
  | Print_cancelled
  | Check_path_exists string
  | Print_config_missing string
  | Makedirs string
  | Print_banner
  | Load_strategy_config string
  | Print_strategy_name
  | Print_instrument
  | Print_grid_levels
  | Print_total_amount
  | Getenv string
  | Trading_node_run bool
  | Print_stopped
  | Uncaught_exception

text \<open>\<open>os.getenv(name, "")\<close>.\<close>

definition getenv :: "launcher_world \<Rightarrow> string \<Rightarrow> string" where
  "getenv w name = (case environ w name of None \<Rightarrow> [] | Some v \<Rightarrow> v)"

text \<open>
  \<open>create_trading_node_config\<close>: the two lookups it makes, and whether it raises
  \<open>ValueError\<close> because the key or the secret is empty.
\<close>

definition create_trading_node_config :: "launcher_world \<Rightarrow> bool \<Rightarrow> launcher_effect list \<times> bool" where
  "create_trading_node_config w testnet =
     (let key_name = (if testnet then ''BYBIT_TESTNET_API_KEY'' else ''BYBIT_API_KEY'');
          secret_name = (if testnet then ''BYBIT_TESTNET_API_SECRET'' else ''BYBIT_API_SECRET'');
          api_key = getenv w key_name;
          api_secret = getenv w secret_name
      in ([Getenv key_name, Getenv secret_name], api_key = [] \<or> api_secret = []))"

text \<open>
  The four lines that \<open>run_grid_strategy\<close> prints about the configuration.  Each
  reads one key just before it prints; the result says which lines were printed and
  whether all four reads went through.
\<close>

definition print_summary :: "yaml_document \<Rightarrow> launcher_effect list \<times> bool" where
  "print_summary doc =
     (if \<not> has_key doc ''strategy'' ''name'' then ([], False)
      else if \<not> has_key doc ''trading'' ''instrument_id'' then ([Print_strategy_name], False)
      else if \<not> has_key doc ''grid'' ''levels''
        then ([Print_strategy_name, Print_instrument], False)
      else if \<not> has_key doc ''capital'' ''total_amount''
        then ([Print_strategy_name, Print_instrument, Print_grid_levels], False)
      else ([Print_strategy_name, Print_instrument, Print_grid_levels, Print_total_amount],
            True))"

text \<open>
  \<open>create_grid_strategy_config\<close>: whether it returns.  It reads the six sections and
  then the twelve keys it passes on; a missing one raises \<open>KeyError\<close>.
\<close>

definition create_grid_strategy_config :: "yaml_document \<Rightarrow> bool" where
  "create_grid_strategy_config doc =
     (has_section doc ''trading'' \<and> has_section doc ''grid'' \<and>
      has_section doc ''price_range'' \<and> has_section doc ''capital'' \<and>
      has_section doc ''order'' \<and> has_section doc ''risk'' \<and>
      has_key doc ''trading'' ''instrument_id'' \<and>
      has_key doc ''grid'' ''levels'' \<and> has_key doc ''grid'' ''spacing_type'' \<and>
      has_key doc ''grid'' ''spacing'' \<and>
      has_key doc ''price_range'' ''upper_price'' \<and>
      has_key doc ''price_range'' ''lower_price'' \<and>
      has_key doc ''price_range'' ''range_ratio'' \<and>
      has_key doc ''capital'' ''total_amount'' \<and>
      has_key doc ''capital'' ''base_currency_ratio'' \<and>
      has_key doc ''risk'' ''max_positions'' \<and> has_key doc ''risk'' ''stop_loss_ratio'' \<and>
      has_key doc ''risk'' ''take_profit_ratio'')"

text \<open>
  \<open>run_grid_strategy\<close>.  Loading the configuration, printing the summary and
  building the two configurations happen before the \<open>try\<close>, so an exception there
  leaves \<open>main\<close> after what has been printed; whatever ends the node's run inside
  the \<open>try\<close> is caught, and the final message is printed.
\<close>

definition run_grid_strategy :: "launcher_world \<Rightarrow> string \<Rightarrow> bool \<Rightarrow> launcher_effect list" where
  "run_grid_strategy w config_path testnet =
     [Print_banner, Load_strategy_config config_path] @
     (case config_document w config_path of
        None \<Rightarrow> [Uncaught_exception]
      | Some doc \<Rightarrow>
          (case print_summary doc of
             (printed, all_read) \<Rightarrow>
               printed @
               (if \<not> all_read then [Uncaught_exception]
                else if \<not> create_grid_strategy_config doc then [Uncaught_exception]
                else
                  (case create_trading_node_config w testnet of
                     (lookups, missing) \<Rightarrow>
                       lookups @
                       (if missing then [Uncaught_exception]
                        else [Trading_node_run testnet, Print_stopped])))))"

text \<open>\<open>main\<close> of the launcher.\<close>

definition launcher_main :: "launcher_args \<Rightarrow> launcher_world \<Rightarrow> launcher_effect list" where
  "launcher_main args w =
     (let use_testnet = \<not> arg_mainnet args;
          launch =
            Check_path_exists (arg_config args) #
            (if \<not> path_exists w (arg_config args) then [Print_config_missing (arg_config args)]
             else Makedirs ''logs'' # run_grid_strategy w (arg_config args) use_testnet)
      in if \<not> use_testnet then
           Print_mainnet_warning # Read_input #
           (case typed_line w of
              None \<Rightarrow> [Uncaught_exception]
            | Some confirm \<Rightarrow>
                if lower confirm \<noteq> ''yes'' then [Print_cancelled] else launch)
         else launch)"

text \<open>
  A document with every section and key that is read.  Surroundings in which a launch
  can go through (the file exists and holds that document, the mainnet credentials are
  set), with a given line typed at the prompt; and a mainnet command line.
\<close>

definition complete_document :: yaml_document where
  "complete_document =
     [(''strategy'', [''name'']),
      (''trading'', [''instrument_id'']),
      (''grid'', [''levels'', ''spacing_type'', ''spacing'']),
      (''price_range'', [''upper_price'', ''lower_price'', ''range_ratio'']),
      (''capital'', [''total_amount'', ''base_currency_ratio'']),
      (''order'', []),
      (''risk'', [''max_positions'', ''stop_loss_ratio'', ''take_profit_ratio''])]"

definition ready_world :: "string \<Rightarrow> launcher_world" where
  "ready_world line =
     \<lparr> typed_line = Some line,
       path_exists = (\<lambda>p. True),
       config_document = (\<lambda>p. Some complete_document),
       environ = [''BYBIT_API_KEY'' \<mapsto> ''k'', ''BYBIT_API_SECRET'' \<mapsto> ''s''] \<rparr>"

definition mainnet_args :: launcher_args where
  "mainnet_args =
     \<lparr> arg_config = ''config/strategies/grid_btcusdt.yaml'', arg_testnet = True,
       arg_mainnet = True \<rparr>"

section \<open>Synthetic quote generator (prepare_data.py)\<close>

record quote_row =
  timestamp :: int
  bid_price :: real
  ask_price :: real
  bid_size :: real
  ask_size :: real

text \<open>
  The random numbers the generator draws, as given sequences: the price increments, the
  two size columns and the two noise columns, indexed by row.  Nothing is assumed of
  their values.
\<close>

record random_draws =
  price_changes :: "nat \<Rightarrow> real"
  bid_sizes :: "nat \<Rightarrow> real"
  ask_sizes :: "nat \<Rightarrow> real"
  bid_noise :: "nat \<Rightarrow> real"
  ask_noise :: "nat \<Rightarrow> real"

text \<open>
  Times are microseconds since the epoch.  \<open>pandas.date_range(start, end, freq)\<close>
  gives \<open>start, start + freq, ...\<close> up to and including \<open>end\<close> when it is hit.
\<close>

definition timedelta_days :: "int \<Rightarrow> int" where
  "timedelta_days days = days * 86400000000"

definition date_range :: "int \<Rightarrow> int \<Rightarrow> int \<Rightarrow> int list" where
  "date_range start end freq =
     (if end < start then []
      else map (\<lambda>i. start + int i * freq) [0 ..< nat ((end - start) div freq) + 1])"

definition cumsum :: "(nat \<Rightarrow> real) \<Rightarrow> nat \<Rightarrow> real" where
  "cumsum xs i = (\<Sum>k \<le> i. xs k)"

definition hour_of :: "int \<Rightarrow> int" where
  "hour_of t = (t div 3600000000) mod 24"

text \<open>
  \<open>generate_forex_data\<close> up to and including the construction of the DataFrame
  (lines 16 to 68): the frame before the session-volatility noise is applied.
\<close>

definition constructed_frame ::
  "string \<Rightarrow> int \<Rightarrow> int \<Rightarrow> random_draws \<Rightarrow> py_error + quote_row list" where
  "constructed_frame symbol days now draws =
     (let end = now;
          start = end - timedelta_days days;
          timestamps = date_range start end 30000000;
          base_price = (if symbol = ''BTCUSDT'' then 42000 else 1.0850);
          volatility = (if symbol = ''BTCUSDT'' then 0.02 else 0.001 :: real);
          num_points = length timestamps;
          mean_reversion_strength = 0.01;
          cumulative_changes = (\<lambda>i. cumsum (price_changes draws) i * (1 - mean_reversion_strength));
          spread = (if symbol = ''EURUSD'' then 0.0001 else 1.0)
      in case linspace 0 (4 * pi) (int num_points) of
           Inl e \<Rightarrow> Inl e
         | Inr phases \<Rightarrow>
             Inr (map (\<lambda>i.
                    let prices = base_price * (1 + cumulative_changes i)
                                 + sin (phases ! i) * base_price * 0.02
                    in \<lparr> timestamp = timestamps ! i,
                         bid_price = prices - spread / 2,
                         ask_price = prices + spread / 2,
                         bid_size = bid_sizes draws i,
                         ask_size = ask_sizes draws i \<rparr>)
                  [0 ..< num_points]))"

text \<open>
  The rest of \<open>generate_forex_data\<close>: both price columns are multiplied by the noise
  of their row, and the timestamps and the frame are returned.
\<close>

definition session_volatility :: "int \<Rightarrow> real" where
  "session_volatility t = (if 8 \<le> hour_of t \<and> hour_of t \<le> 16 then 1.5 else 0.7)"

definition generate_forex_data ::
  "string \<Rightarrow> int \<Rightarrow> int \<Rightarrow> random_draws \<Rightarrow> py_error + (int list \<times> quote_row list)" where
  "generate_forex_data symbol days now draws =
     (case constructed_frame symbol days now draws of
        Inl e \<Rightarrow> Inl e
      | Inr df \<Rightarrow>
          Inr (map timestamp df,
               map (\<lambda>i. (df ! i)
                      \<lparr> bid_price := bid_price (df ! i) *
                           (1 + bid_noise draws i * session_volatility (timestamp (df ! i))),
                        ask_price := ask_price (df ! i) *
                           (1 + ask_noise draws i * session_volatility (timestamp (df ! i))) \<rparr>)
                 [0 ..< length df]))"

definition still_draws :: random_draws where
  "still_draws =
     \<lparr> price_changes = (\<lambda>i. 0), bid_sizes = (\<lambda>i. 0.5), ask_sizes = (\<lambda>i. 0.5),
       bid_noise = (\<lambda>i. 0), ask_noise = (\<lambda>i. 0) \<rparr>"

section \<open>Multi-source downloader (src/data/download_multi_source_data.py)\<close>

record ohlcv_row =
  bar_time :: int
  bar_open :: real
  bar_high :: real
  bar_low :: real
  bar_close :: real
  bar_volume :: real

text \<open>
  The rows of the four providers' payloads, with the fields the converters read.
\<close>

record cryptocompare_row =
  cc_time :: int
  cc_open :: real
  cc_high :: real
  cc_low :: real
  cc_close :: real
  cc_volumefrom :: real

type_synonym coingecko_row = "int \<times> real"

record kraken_row =
  kr_time :: int
  kr_open :: real
  kr_high :: real
  kr_low :: real
  kr_close :: real
  kr_vwap :: real
  kr_volume :: real
  kr_count :: int

record coinbase_row =
  cb_time :: int
  cb_low :: real
  cb_high :: real
  cb_open :: real
  cb_close :: real
  cb_volume :: real

definition convert_cryptocompare_to_df :: "cryptocompare_row list \<Rightarrow> ohlcv_row list" where
  "convert_cryptocompare_to_df data =
     map (\<lambda>r. \<lparr> bar_time = cc_time r, bar_open = cc_open r, bar_high = cc_high r,
                 bar_low = cc_low r, bar_close = cc_close r, bar_volume = cc_volumefrom r \<rparr>) data"

definition convert_coingecko_to_df :: "coingecko_row list \<Rightarrow> ohlcv_row list" where
  "convert_coingecko_to_df data =
     map (\<lambda>(t, price). \<lparr> bar_time = t, bar_open = price, bar_high = price,
                 bar_low = price, bar_close = price, bar_volume = 0 \<rparr>) data"

definition convert_kraken_to_df :: "kraken_row list \<Rightarrow> ohlcv_row list" where
  "convert_kraken_to_df data =
     map (\<lambda>r. \<lparr> bar_time = kr_time r, bar_open = kr_open r, bar_high = kr_high r,
                 bar_low = kr_low r, bar_close = kr_close r, bar_volume = kr_volume r \<rparr>) data"

definition convert_coinbase_to_df :: "coinbase_row list \<Rightarrow> ohlcv_row list" where
  "convert_coinbase_to_df data =
     map (\<lambda>r. \<lparr> bar_time = cb_time r, bar_open = cb_open r, bar_high = cb_high r,
                 bar_low = cb_low r, bar_close = cb_close r, bar_volume = cb_volume r \<rparr>) data"

text \<open>
  \<open>rolling(window=60, min_periods=1).mean()\<close> at row \<open>i\<close>: the mean of the last
  up to 60 values ending at \<open>i\<close>.
\<close>

definition rolling_mean_60 :: "real list \<Rightarrow> nat \<Rightarrow> real" where
  "rolling_mean_60 xs i =
     (let window = drop (Suc i - 60) (take (Suc i) xs)
      in sum_list window / real (length window))"

definition create_quote_data_from_ohlc :: "ohlcv_row list \<Rightarrow> quote_row list" where
  "create_quote_data_from_ohlc df =
     (if df = [] then []
      else
        let spread_ratio = 0.0002;
            avg_volume = (if sum_list (map bar_volume df) > 0
                          then rolling_mean_60 (map bar_volume df)
                          else (\<lambda>i. 0.1))
        in map (\<lambda>i.
                 let close = bar_close (df ! i); spread = close * spread_ratio
                 in \<lparr> timestamp = bar_time (df ! i),
                      bid_price = close - spread / 2,
                      ask_price = close + spread / 2,
                      bid_size = avg_volume i * 0.001,
                      ask_size = avg_volume i * 0.001 \<rparr>)
             [0 ..< length df])"

text \<open>
  What each \<open>download_*\<close> function returns: \<open>None\<close> after an error, otherwise the
  rows.  \<open>truthy\<close> is Python's test \<open>if data:\<close>.
\<close>

datatype provider = CryptoCompare | CoinGecko | Kraken | Coinbase

record provider_responses =
  cryptocompare_data :: "cryptocompare_row list option"
  coingecko_data :: "coingecko_row list option"
  kraken_data :: "kraken_row list option"
  coinbase_data :: "coinbase_row list option"

datatype file_content = Ohlc_table "ohlcv_row list" | Quote_table "quote_row list"

datatype download_effect =
    Make_directory string
  | Request provider
  | Sleep_seconds nat
  | Write_file string file_content
  | Print_failure_advice

definition truthy :: "'a list option \<Rightarrow> bool" where
  "truthy data = (case data of None \<Rightarrow> False | Some rows \<Rightarrow> rows \<noteq> [])"

record download_state =
  success :: bool
  df :: "ohlcv_row list"
  effects :: "download_effect list"

text \<open>
  The four steps of \<open>main\<close>, each extending the effects so far; a step after the
  first runs only while \<open>success\<close> is false.
\<close>

definition try_cryptocompare :: "provider_responses \<Rightarrow> download_state \<Rightarrow> download_state" where
  "try_cryptocompare w st =
     (let st1 = st\<lparr>effects := effects st @ [Request CryptoCompare]\<rparr>
      in case cryptocompare_data w of
           None \<Rightarrow> st1
         | Some cc_data \<Rightarrow>
             if cc_data = [] then st1
             else st1\<lparr>df := convert_cryptocompare_to_df cc_data, success := True\<rparr>)"

definition try_coingecko :: "provider_responses \<Rightarrow> download_state \<Rightarrow> download_state" where
  "try_coingecko w st =
     (if success st then st
      else
        let st1 = st\<lparr>effects := effects st @ [Sleep_seconds 1, Request CoinGecko]\<rparr>
        in case coingecko_data w of
             None \<Rightarrow> st1
           | Some cg_data \<Rightarrow>
               if cg_data = [] then st1
               else st1\<lparr>df := convert_coingecko_to_df cg_data, success := True\<rparr>)"

definition try_kraken :: "provider_responses \<Rightarrow> download_state \<Rightarrow> download_state" where
  "try_kraken w st =
     (if success st then st
      else
        let st1 = st\<lparr>effects := effects st @ [Request Kraken]\<rparr>
        in case kraken_data w of
             None \<Rightarrow> st1
           | Some kraken_rows \<Rightarrow>
               if kraken_rows = [] then st1
               else st1\<lparr>df := convert_kraken_to_df kraken_rows, success := True\<rparr>)"

definition try_coinbase :: "provider_responses \<Rightarrow> download_state \<Rightarrow> download_state" where
  "try_coinbase w st =
     (if success st then st
      else
        let st1 = st\<lparr>effects := effects st @ [Request Coinbase]\<rparr>
        in case coinbase_data w of
             None \<Rightarrow> st1
           | Some cb_data \<Rightarrow>
               if cb_data = [] then st1
               else st1\<lparr>df := convert_coinbase_to_df cb_data, success := True\<rparr>)"

definition provider_chain :: "provider_responses \<Rightarrow> download_state" where
  "provider_chain w =
     try_coinbase w (try_kraken w (try_coingecko w (try_cryptocompare w
       \<lparr> success = False, df = [],
         effects = [Make_directory ''nautilus_data/historical''] \<rparr>)))"

definition download_main :: "provider_responses \<Rightarrow> download_effect list" where
  "download_main w =
     (let st = provider_chain w
      in if success st \<and> df st \<noteq> [] then
           let quote_df = create_quote_data_from_ohlc (df st)
           in effects st @
              [Write_file ''nautilus_data/historical/BTCUSDT_ohlc.csv'' (Ohlc_table (df st)),
               Write_file ''nautilus_data/historical/BTCUSDT_quotes.csv'' (Quote_table quote_df),
               Write_file ''nautilus_data/historical/BTCUSDT_quotes.parquet'' (Quote_table quote_df)]
         else effects st @ [Print_failure_advice])"

text \<open>The providers requested and the files written, read off the effects.\<close>

definition requests :: "download_effect list \<Rightarrow> provider list" where
  "requests es = concat (map (\<lambda>e. case e of Request p \<Rightarrow> [p] | _ \<Rightarrow> []) es)"

definition written_files :: "download_effect list \<Rightarrow> string list" where
  "written_files es = concat (map (\<lambda>e. case e of Write_file name c \<Rightarrow> [name] | _ \<Rightarrow> []) es)"

text \<open>
  Two sets of responses: CryptoCompare fails, CoinGecko is empty, Kraken has one row;
  and all four fail.
\<close>

definition kraken_answers :: provider_responses where
  "kraken_answers =
     \<lparr> cryptocompare_data = None, coingecko_data = Some [],
       kraken_data = Some [\<lparr> kr_time = 0, kr_open = 42000, kr_high = 42010, kr_low = 41990,
                              kr_close = 42005, kr_vwap = 42001, kr_volume = 3, kr_count = 7 \<rparr>],
       coinbase_data = None \<rparr>"

definition nobody_answers :: provider_responses where
  "nobody_answers =
     \<lparr> cryptocompare_data = None, coingecko_data = None, kraken_data = Some [],
       coinbase_data = None \<rparr>"

section \<open>Real-data backtest (backtest_with_real_data.py)\<close>







section \<open>Rounding\<close>

lemma round_half_even_lower: "of_int a \<le> y \<Longrightarrow> a \<le> round_half_even y"
proof -
  assume "of_int a \<le> y"
  then have "a \<le> \<lfloor>y\<rfloor>" by (simp add: le_floor_iff)
  then show ?thesis by (auto simp: round_half_even_def Let_def)
qed

lemma round_half_even_upper: "y \<le> of_int b \<Longrightarrow> round_half_even y \<le> b"
proof -
  assume le: "y \<le> of_int b"
  show ?thesis
  proof (cases "y = of_int b")
    case True
    then show ?thesis by (simp add: round_half_even_def)
  next
    case False
    with le have "y < of_int b" by simp
    then have "\<lfloor>y\<rfloor> < b" by (simp add: floor_less_iff)
    then have "\<lfloor>y\<rfloor> + 1 \<le> b" by simp
    then show ?thesis by (auto simp: round_half_even_def Let_def)
  qed
qed

lemma round_half_even_of_int [simp]: "round_half_even (of_int k) = k"
  by (simp add: round_half_even_def)


lemma round_half_even_mono:
  assumes "x \<le> y"
  shows "round_half_even x \<le> round_half_even y"
proof (cases "\<lfloor>x\<rfloor> = \<lfloor>y\<rfloor>")
  case True
  with assms show ?thesis by (auto simp: round_half_even_def Let_def)
next
  case False
  with assms have "\<lfloor>x\<rfloor> < \<lfloor>y\<rfloor>" using floor_mono [OF assms] by linarith
  then have "\<lfloor>x\<rfloor> + 1 \<le> \<lfloor>y\<rfloor>" by simp
  moreover have "round_half_even x \<le> \<lfloor>x\<rfloor> + 1" by (auto simp: round_half_even_def Let_def)
  moreover have "\<lfloor>y\<rfloor> \<le> round_half_even y" by (auto simp: round_half_even_def Let_def)
  ultimately show ?thesis by linarith
qed

lemma round_half_even_minus: "round_half_even (- y) = - round_half_even y"
proof (cases "y = of_int \<lfloor>y\<rfloor>")
  case True
  then obtain k where "y = of_int k" ..
  then have "- y = of_int (- k)" by simp
  then show ?thesis using \<open>y = of_int k\<close> by (simp only: round_half_even_of_int)
next
  case False
  have lo: "of_int \<lfloor>y\<rfloor> < y" using False by (metis of_int_floor_le order_less_le)
  have hi: "y < of_int \<lfloor>y\<rfloor> + 1" by linarith
  have fm: "\<lfloor>- y\<rfloor> = - \<lfloor>y\<rfloor> - 1"
  proof (rule floor_unique)
    show "of_int (- \<lfloor>y\<rfloor> - 1) \<le> - y" using hi by linarith
    show "- y < of_int (- \<lfloor>y\<rfloor> - 1) + 1" using lo by linarith
  qed
  show ?thesis
    unfolding round_half_even_def Let_def fm using lo hi by auto
qed

lemma binade_top: "(2::real) powr real_of_int b = 2 ^ 52 * 2 powr real_of_int (b - 52)"
  by (simp add: powr_diff)

lemma binade_next: "(2::real) powr real_of_int (b + 1) = 2 ^ 53 * 2 powr real_of_int (b - 52)"
  by (simp add: powr_diff powr_add)

lemma binade_eq:
  assumes "(2::real) powr real_of_int e \<le> \<bar>x\<bar>" and "\<bar>x\<bar> < (2::real) powr real_of_int (e + 1)" and "- 1022 \<le> e"
  shows "binade x = e"
proof -
  have "0 < (2::real) powr real_of_int e" by simp
  with assms(1) have pos: "0 < \<bar>x\<bar>" by linarith
  have "\<lfloor>log 2 \<bar>x\<bar>\<rfloor> = e"
    using assms(1,2) pos by (simp add: floor_log_eq_powr_iff)
  then show ?thesis using assms(3) by (simp add: binade_def)
qed

lemma binade_ge: "- 1022 \<le> binade x"
  by (simp add: binade_def)

lemma binade_upper:
  assumes "x \<noteq> 0"
  shows "\<bar>x\<bar> < (2::real) powr real_of_int (binade x + 1)"
proof -
  have pos: "0 < \<bar>x\<bar>" using assms by simp
  define k where "k = \<lfloor>log 2 \<bar>x\<bar>\<rfloor>"
  have "\<bar>x\<bar> < (2::real) powr real_of_int (k + 1)"
    using pos floor_log_eq_powr_iff [of "\<bar>x\<bar>" 2 k] by (simp add: k_def)
  also have "(2::real) powr real_of_int (k + 1) \<le> (2::real) powr real_of_int (binade x + 1)"
  proof -
    have "k \<le> binade x" by (simp add: binade_def k_def)
    then show ?thesis by simp
  qed
  finally show ?thesis .
qed

lemma binade_lower:
  assumes "x \<noteq> 0" and "- 1022 < binade x"
  shows "(2::real) powr real_of_int (binade x) \<le> \<bar>x\<bar>"
proof -
  have pos: "0 < \<bar>x\<bar>" using assms by simp
  define k where "k = \<lfloor>log 2 \<bar>x\<bar>\<rfloor>"
  have "binade x = k" using assms(2) by (simp add: binade_def k_def max_def split: if_splits)
  moreover have "(2::real) powr real_of_int k \<le> \<bar>x\<bar>"
    using pos floor_log_eq_powr_iff [of "\<bar>x\<bar>" 2 k] by (simp add: k_def)
  ultimately show ?thesis by simp
qed

lemma binade_mono:
  assumes "0 < x" and "x \<le> y"
  shows "binade x \<le> binade y"
proof -
  have "log 2 \<bar>x\<bar> \<le> log 2 \<bar>y\<bar>" using assms by simp
  then have "\<lfloor>log 2 \<bar>x\<bar>\<rfloor> \<le> \<lfloor>log 2 \<bar>y\<bar>\<rfloor>" by (rule floor_mono)
  then show ?thesis by (simp add: binade_def)
qed

lemma fl_zero [simp]: "fl 0 = 0"
  by (simp add: fl_def)

lemma fl_minus: "fl (- x) = - fl x"
proof -
  have "binade (- x) = binade x" by (simp add: binade_def)
  then show ?thesis by (simp add: fl_def round_half_even_minus)
qed

lemma fl_nonneg:
  assumes "0 \<le> x"
  shows "0 \<le> fl x"
proof (cases "x = 0")
  case True
  then show ?thesis by simp
next
  case False
  have "0 \<le> x / (2::real) powr real_of_int (binade x - 52)" using assms by simp
  then have "0 \<le> round_half_even (x / (2::real) powr real_of_int (binade x - 52))"
    using round_half_even_lower [of 0] by simp
  then show ?thesis using False by (simp add: fl_def)
qed

lemma fl_upper:
  assumes "0 < x"
  shows "fl x \<le> 2 powr real_of_int (binade x + 1)"
proof -
  define b where "b = binade x"
  define U where "U = (2::real) powr real_of_int (b - 52)"
  have u: "0 < U" by (simp add: U_def)
  have "x < 2 powr real_of_int (b + 1)" using binade_upper [of x] assms by (simp add: b_def)
  also have "\<dots> = 2 ^ 53 * U" unfolding U_def by (rule binade_next)
  finally have "x / U \<le> 2 ^ 53" using u by (simp add: pos_divide_le_eq)
  then have "x / U \<le> of_int (2 ^ 53)" by simp
  then have "round_half_even (x / U) \<le> 2 ^ 53"
    by (rule round_half_even_upper)
  then have "of_int (round_half_even (x / U)) \<le> (2 ^ 53 :: real)"
    by (metis of_int_le_iff of_int_numeral of_int_power)
  then have "of_int (round_half_even (x / U)) * U \<le> 2 ^ 53 * U"
    using u by (simp add: mult_right_mono)
  also have "\<dots> = 2 powr real_of_int (b + 1)" unfolding U_def by (rule binade_next [symmetric])
  finally have "of_int (round_half_even (x / U)) * U \<le> 2 powr real_of_int (b + 1)" .
  moreover have "fl x = of_int (round_half_even (x / U)) * U"
    using assms unfolding fl_def U_def b_def by simp
  ultimately show ?thesis unfolding b_def by simp
qed

lemma fl_lower:
  assumes "0 < x" and "2 powr real_of_int (binade x) \<le> x"
  shows "2 powr real_of_int (binade x) \<le> fl x"
proof -
  define b where "b = binade x"
  define U where "U = (2::real) powr real_of_int (b - 52)"
  have u: "0 < U" by (simp add: U_def)
  have top: "2 powr real_of_int b = 2 ^ 52 * U" unfolding U_def by (rule binade_top)
  have "2 ^ 52 * U \<le> x" using assms(2) top by (simp add: b_def)
  then have "2 ^ 52 \<le> x / U" using u by (simp add: pos_le_divide_eq)
  then have "of_int (2 ^ 52) \<le> x / U" by simp
  then have "2 ^ 52 \<le> round_half_even (x / U)"
    by (rule round_half_even_lower)
  then have "(2 ^ 52 :: real) \<le> of_int (round_half_even (x / U))"
    by (metis of_int_le_iff of_int_numeral of_int_power)
  then have "2 ^ 52 * U \<le> of_int (round_half_even (x / U)) * U"
    using u by (simp add: mult_right_mono)
  then have "2 powr real_of_int b \<le> of_int (round_half_even (x / U)) * U"
    using top by simp
  moreover have "fl x = of_int (round_half_even (x / U)) * U"
    using assms(1) unfolding fl_def U_def b_def by simp
  ultimately show ?thesis unfolding b_def by simp
qed

lemma fl_mono_nonneg:
  assumes "0 \<le> x" and "x \<le> y"
  shows "fl x \<le> fl y"
proof (cases "x = 0")
  case True
  with assms show ?thesis by (simp add: fl_nonneg)
next
  case False
  with assms have px: "0 < x" and py: "0 < y" by simp_all
  have le: "binade x \<le> binade y" using px assms(2) by (rule binade_mono)
  show ?thesis
  proof (cases "binade x = binade y")
    case True
    define U where "U = (2::real) powr real_of_int (binade y - 52)"
    have u: "0 < U" by (simp add: U_def)
    have "x / U \<le> y / U" using assms(2) u by (simp add: divide_right_mono)
    then have "round_half_even (x / U) \<le> round_half_even (y / U)"
      by (rule round_half_even_mono)
    then have "of_int (round_half_even (x / U)) * U \<le> of_int (round_half_even (y / U)) * U"
      using u by (simp add: mult_right_mono)
    moreover have "fl x = of_int (round_half_even (x / U)) * U"
      using px True unfolding fl_def U_def by simp
    moreover have "fl y = of_int (round_half_even (y / U)) * U"
      using py unfolding fl_def U_def by simp
    ultimately show ?thesis by simp
  next
    case False
    with le have lt: "binade x < binade y" by simp
    then have "- 1022 < binade y" using binade_ge [of x] by linarith
    then have "(2::real) powr real_of_int (binade y) \<le> y"
      using binade_lower [of y] py by simp
    then have low: "(2::real) powr real_of_int (binade y) \<le> fl y" using py by (rule fl_lower [rotated])
    have "fl x \<le> (2::real) powr real_of_int (binade x + 1)" using px by (rule fl_upper)
    also have "\<dots> \<le> (2::real) powr real_of_int (binade y)" using lt by simp
    finally show ?thesis using low by simp
  qed
qed

lemma fl_mono:
  assumes "x \<le> y"
  shows "fl x \<le> fl y"
proof (cases "0 \<le> x")
  case True
  then show ?thesis using assms by (rule fl_mono_nonneg)
next
  case neg: False
  show ?thesis
  proof (cases "0 \<le> y")
    case True
    have "fl (- x) \<ge> 0" using neg by (intro fl_nonneg) simp
    then have "fl x \<le> 0" by (simp add: fl_minus)
    also have "0 \<le> fl y" using True by (rule fl_nonneg)
    finally show ?thesis .
  next
    case False
    then have "0 \<le> - y" "- y \<le> - x" using assms by simp_all
    then have "fl (- y) \<le> fl (- x)" by (rule fl_mono_nonneg)
    then show ?thesis by (simp add: fl_minus)
  qed
qed

lemma fl_eval:
  assumes "2 powr real_of_int e \<le> \<bar>x\<bar>" and "\<bar>x\<bar> < 2 powr real_of_int (e + 1)"
    and "- 1022 \<le> e"
  shows "fl x = of_int (round_half_even (x / 2 powr real_of_int (e - 52))) * 2 powr real_of_int (e - 52)"
proof -
  have "binade x = e" using assms by (rule binade_eq)
  moreover have "0 < (2::real) powr real_of_int e" by simp
  with assms(1) have "0 < \<bar>x\<bar>" by linarith
  then have "x \<noteq> 0" by simp
  ultimately show ?thesis by (simp add: fl_def)
qed


lemma fl_eval_down:
  assumes "1 \<le> \<bar>x\<bar> * 2 ^ n" and "\<bar>x\<bar> * 2 ^ n < 2" and "n \<le> 1022"
  shows "fl x = of_int (round_half_even (x * 2 ^ (52 + n))) / 2 ^ (52 + n)"
proof -
  have p: "(2::real) powr real_of_int (- int n) = 1 / 2 ^ n"
  proof -
    have "(2::real) powr real_of_int (- int n) = 2 powr (- real n)" by simp
    also have "\<dots> = inverse (2 powr real n)" by (rule powr_minus)
    also have "\<dots> = 1 / 2 ^ n" by (simp add: powr_realpow divide_inverse)
    finally show ?thesis .
  qed
  have q: "(2::real) powr real_of_int (- int n + 1) = 2 / 2 ^ n"
  proof -
    have "(2::real) powr real_of_int (- int n + 1) = 2 powr (real_of_int (- int n) + 1)" by simp
    also have "\<dots> = 2 powr real_of_int (- int n) * 2 powr 1" by (rule powr_add)
    also have "\<dots> = 2 / 2 ^ n" unfolding p by simp
    finally show ?thesis .
  qed
  have r: "(2::real) powr real_of_int (- int n - 52) = 1 / 2 ^ (52 + n)"
  proof -
    have "real_of_int (- int n - 52) = - real (52 + n)" by simp
    then have "(2::real) powr real_of_int (- int n - 52) = 2 powr (- real (52 + n))"
      by (simp only:)
    also have "\<dots> = inverse (2 powr real (52 + n))" by (rule powr_minus)
    also have "(2::real) powr real (52 + n) = 2 ^ (52 + n)" by (rule powr_realpow) simp
    also have "inverse ((2::real) ^ (52 + n)) = 1 / 2 ^ (52 + n)" by (rule inverse_eq_divide)
    finally show ?thesis .
  qed
  have lo: "1 / 2 ^ n \<le> \<bar>x\<bar>" using assms(1) by (simp add: pos_divide_le_eq)
  have hi: "\<bar>x\<bar> < 2 / 2 ^ n" using assms(2) by (simp add: pos_less_divide_eq)
  have "fl x = of_int (round_half_even (x / (1 / 2 ^ (52 + n)))) * (1 / 2 ^ (52 + n))"
    using fl_eval [of "- int n" x, unfolded p q r] lo hi assms(3) by simp
  then show ?thesis by simp
qed

lemma fl_exact:
  assumes "x = real_of_int m * 2 powr real_of_int e" and "\<bar>m\<bar> < 2 ^ 53" and "- 1074 \<le> e"
  shows "fl x = x"
proof (cases "x = 0")
  case True
  then show ?thesis by simp
next
  case False
  define b where "b = binade x"
  define U where "U = (2::real) powr real_of_int (b - 52)"
  have "b \<le> e + 52"
  proof (cases "- 1022 < b")
    case True
    then have "2 powr real_of_int b \<le> \<bar>x\<bar>"
      using binade_lower [of x] False by (simp add: b_def)
    also have "\<bar>x\<bar> = \<bar>real_of_int m\<bar> * 2 powr real_of_int e"
      by (simp add: assms(1) abs_mult)
    also have "\<dots> < 2 ^ 53 * 2 powr real_of_int e"
    proof -
      have "\<bar>real_of_int m\<bar> < 2 ^ 53"
        using assms(2) by (metis of_int_abs of_int_less_iff of_int_numeral of_int_power)
      then show ?thesis by simp
    qed
    also have "\<dots> = 2 powr real_of_int (e + 53)" by (simp add: powr_add)
    finally have "real_of_int b < real_of_int (e + 53)" by simp
    then show ?thesis by simp
  next
    case False
    then have "b = - 1022" using binade_ge [of x] by (simp add: b_def)
    with assms(3) show ?thesis by simp
  qed
  then obtain k :: nat where k: "e + 52 - b = int k"
    by (metis diff_ge_0_iff_ge nonneg_int_cases)
  have "x / U = real_of_int m * (2 powr real_of_int e / 2 powr real_of_int (b - 52))"
    by (simp add: assms(1) U_def)
  also have "2 powr real_of_int e / 2 powr real_of_int (b - 52) = (2::real) powr real_of_int (e - (b - 52))"
    by (simp add: powr_diff)
  also have "e - (b - 52) = int k" using k by simp
  also have "(2::real) powr real_of_int (int k) = 2 ^ k" by (simp add: powr_realpow)
  finally have "x / U = real_of_int (m * 2 ^ k)" by simp
  then have "round_half_even (x / U) = m * 2 ^ k" by (simp only: round_half_even_of_int)
  moreover have "fl x = of_int (round_half_even (x / U)) * U"
    using False unfolding fl_def U_def b_def by simp
  ultimately have "fl x = real_of_int (m * 2 ^ k) * U" by simp
  also have "\<dots> = x / U * U" using \<open>x / U = real_of_int (m * 2 ^ k)\<close> by simp
  also have "\<dots> = x" by (simp add: U_def)
  finally show ?thesis .
qed

lemma fl_of_int:
  assumes "\<bar>m\<bar> < 2 ^ 53"
  shows "fl (real_of_int m) = real_of_int m"
  using fl_exact [of "real_of_int m" m 0] assms by simp

lemma fl_numeral [simp]:
  "numeral k < (2::int) ^ 53 \<Longrightarrow> fl (numeral k) = numeral k"
  using fl_of_int [of "numeral k"] by simp

lemma fl_one [simp]: "fl 1 = 1"
  using fl_of_int [of 1] by simp

lemma fl_dyadic:
  assumes "\<bar>m\<bar> < 2 ^ 53" and "n \<le> 1074"
  shows "fl (real_of_int m / 2 ^ n) = real_of_int m / 2 ^ n"
proof -
  have "(2::real) powr real_of_int (- int n) = 1 / 2 ^ n"
  proof -
    have "(2::real) powr real_of_int (- int n) = 2 powr (- real n)" by simp
    also have "\<dots> = inverse (2 powr real n)" by (rule powr_minus)
    also have "\<dots> = 1 / 2 ^ n" by (simp add: powr_realpow divide_inverse)
    finally show ?thesis .
  qed
  then have eq: "real_of_int m / 2 ^ n = real_of_int m * 2 powr real_of_int (- int n)" by simp
  show ?thesis by (rule fl_exact [OF eq]) (use assms in simp_all)
qed

lemma fl_half_numeral [simp]:
  "numeral k < (2::int) ^ 53 \<Longrightarrow> fl (numeral k / 2) = numeral k / 2"
  using fl_dyadic [of "numeral k" 1] by simp

lemma fl_idem: "fl (fl x) = fl x"
proof (cases "x = 0")
  case True
  then show ?thesis by simp
next
  case False
  define b where "b = binade x"
  define U where "U = (2::real) powr real_of_int (b - 52)"
  define m where "m = round_half_even (x / U)"
  have val: "fl x = real_of_int m * U" using False unfolding fl_def m_def U_def b_def by simp
  have "\<bar>x\<bar> < 2 powr real_of_int (b + 1)" using binade_upper [OF False] by (simp add: b_def)
  also have "\<dots> = 2 ^ 53 * U" unfolding U_def by (rule binade_next)
  finally have bound: "\<bar>x / U\<bar> \<le> 2 ^ 53" by (simp add: U_def pos_divide_le_eq abs_mult)
  have "m \<le> 2 ^ 53"
  proof -
    have "x / U \<le> \<bar>x / U\<bar>" by (rule abs_ge_self)
    with bound have "x / U \<le> 2 ^ 53" by linarith
    then have "x / U \<le> of_int (2 ^ 53)" by simp
    then show ?thesis unfolding m_def by (rule round_half_even_upper)
  qed
  moreover have "- (2 ^ 53) \<le> m"
  proof -
    have "- \<bar>x / U\<bar> \<le> x / U" by (simp only: neg_le_iff_le abs_ge_minus_self minus_le_iff)
    moreover have "- (2 ^ 53) \<le> - \<bar>x / U\<bar>" using bound by (simp only: neg_le_iff_le)
    ultimately have "- (2 ^ 53) \<le> x / U" by linarith
    then have "of_int (- (2 ^ 53)) \<le> x / U" by simp
    then show ?thesis unfolding m_def by (rule round_half_even_lower)
  qed
  ultimately have mb: "\<bar>m\<bar> \<le> 2 ^ 53" by simp
  show ?thesis
  proof (cases "\<bar>m\<bar> = 2 ^ 53")
    case True
    then have "m = 2 ^ 53 \<or> m = - (2 ^ 53)" by (simp add: abs_if split: if_splits)
    then have "fl x = real_of_int 1 * 2 powr real_of_int (b + 1) \<or>
               fl x = real_of_int (- 1) * 2 powr real_of_int (b + 1)"
      using val binade_next [of b] by (auto simp: U_def)
    moreover have "- 1074 \<le> b + 1" using binade_ge [of x] by (simp add: b_def)
    ultimately show ?thesis using fl_exact [of "fl x" 1 "b + 1"] fl_exact [of "fl x" "- 1" "b + 1"]
      by auto
  next
    case False
    with mb have "\<bar>m\<bar> < 2 ^ 53" by simp
    moreover have "- 1074 \<le> b - 52" using binade_ge [of x] by (simp add: b_def)
    ultimately show ?thesis using fl_exact [of "fl x" m "b - 52"] val by (simp add: U_def)
  qed
qed

lemma render_of_int [simp]: "render d (real_of_int k) = real_of_int k"
proof -
  have "real_of_int k * 10 ^ d = real_of_int (k * 10 ^ d)" by simp
  then have "round_half_even (real_of_int k * 10 ^ d) = k * 10 ^ d"
    by (simp only: round_half_even_of_int)
  then show ?thesis by (simp add: render_def)
qed

lemma render_numeral [simp]: "render d (numeral k) = numeral k"
  using render_of_int [of d "numeral k"] by simp

lemma render_mono: "x \<le> y \<Longrightarrow> render d x \<le> render d y"
proof -
  assume "x \<le> y"
  then have "x * 10 ^ d \<le> y * 10 ^ d" by simp
  then have "round_half_even (x * 10 ^ d) \<le> round_half_even (y * 10 ^ d)"
    by (rule round_half_even_mono)
  then show ?thesis by (simp add: render_def divide_right_mono)
qed

lemma fl_le_float: "x \<le> d \<Longrightarrow> fl d = d \<Longrightarrow> fl x \<le> d"
  using fl_mono [of x d] by simp

lemma fl_ge_float: "d \<le> x \<Longrightarrow> fl d = d \<Longrightarrow> d \<le> fl x"
  using fl_mono [of d x] by simp

lemma render_fl_between:
  assumes "d1 \<le> x" and "x \<le> d2" and "fl d1 = d1" and "fl d2 = d2"
    and "render n d1 = v" and "render n d2 = v"
  shows "render n (fl x) = v"
proof -
  have "d1 \<le> fl x" using assms(1,3) by (rule fl_ge_float)
  then have "render n d1 \<le> render n (fl x)" by (rule render_mono)
  moreover have "fl x \<le> d2" using assms(2,4) by (rule fl_le_float)
  then have "render n (fl x) \<le> render n d2" by (rule render_mono)
  ultimately show ?thesis using assms(5,6) by simp
qed

section \<open>Properties of GridStrategy\<close>

lemma state_of_simps [simp]:
  "state_of (Inl (e, s)) = s" "state_of (Inr s) = s"
  by (simp_all add: state_of_def)

lemma place_grid_order_Inr:
  "place_grid_order s p side a = Inr s' \<Longrightarrow>
     p \<noteq> 0 \<and> order_factory (libs s) side (render 6 (fl (a / p))) (render 2 p) \<and>
     s' = s\<lparr> order_count := order_count s + 1,
             submitted := submitted s @ [\<lparr> o_side = side, o_quantity = render 6 (fl (a / p)),
                      o_price = render 2 p,
                      o_post_only = post_only s, o_client_order_id = order_count s \<rparr>],
             grid_orders := (grid_orders s)(p \<mapsto> order_count s),
             active_orders := (active_orders s)(order_count s \<mapsto> p) \<rparr>"
  by (auto simp: place_grid_order_def Let_def split: if_splits)

lemma place_grid_order_Inl:
  "place_grid_order s p side a = Inl (e, s') \<Longrightarrow> s' = s"
  by (auto simp: place_grid_order_def Let_def split: if_splits)

lemma place_grid_order_preserves:
  assumes "\<And>s p side a s'. P s \<Longrightarrow> place_grid_order s p side a = Inr s' \<Longrightarrow> P s'"
    and "P s"
  shows "P (state_of (place_grid_order s p side a))"
proof (cases "place_grid_order s p side a")
  case (Inl err)
  obtain e s' where "err = (e, s')" by (cases err)
  with Inl assms(2) show ?thesis by (auto dest: place_grid_order_Inl)
next
  case (Inr s')
  with assms show ?thesis by auto
qed

lemma setup_loop_preserves:
  assumes place: "\<And>s p side a s'. P s \<Longrightarrow> place_grid_order s p side a = Inr s' \<Longrightarrow> P s'"
  shows "P s \<Longrightarrow> P (state_of (setup_loop cp apg ps s))"
proof (induction ps arbitrary: s)
  case Nil
  then show ?case by simp
next
  case (Cons p ps)
  have step: "P (state_of (case place_grid_order s p side apg of
                  Inl err \<Rightarrow> Inl err | Inr s' \<Rightarrow> setup_loop cp apg ps s'))" for side
  proof (cases "place_grid_order s p side apg")
    case (Inl err)
    obtain e s' where "err = (e, s')" by (cases err)
    with Inl Cons.prems show ?thesis by (auto dest: place_grid_order_Inl)
  next
    case (Inr s')
    with Cons.prems have "P s'" using place by blast
    with Inr show ?thesis using Cons.IH by simp
  qed
  show ?case using step Cons.prems Cons.IH by simp
qed

lemma calculate_then_setup_preserves:
  assumes place: "\<And>s p side a s'. P s \<Longrightarrow> place_grid_order s p side a = Inr s' \<Longrightarrow> P s'"
    and prices: "\<And>s g. P s \<Longrightarrow> P (s\<lparr>grid_prices := g\<rparr>)"
    and "P s1"
  shows "P (state_of (case calculate_grid_prices s1 of Inl err \<Rightarrow> Inl err
                      | Inr s2 \<Rightarrow> setup_initial_orders s2 cp))"
proof -
  have calc: "P (state_of (calculate_grid_prices s1))"
    using assms(3) prices
    by (auto simp: calculate_grid_prices_def split: option.splits sum.splits)
  show ?thesis
  proof (cases "calculate_grid_prices s1")
    case (Inl err)
    obtain e s' where "err = (e, s')" by (cases err)
    with Inl calc show ?thesis by simp
  next
    case (Inr s2)
    with calc have "P s2" by simp
    have "P (state_of (setup_loop cp apg ps s2))" for apg ps
    proof (rule setup_loop_preserves [where P = P])
      show "P s2" by fact
    qed (rule place)
    then have "P (state_of (setup_initial_orders s2 cp))"
      using \<open>P s2\<close> by (simp add: setup_initial_orders_def)
    with Inr show ?thesis by simp
  qed
qed

lemma initialize_grid_preserves:
  assumes place: "\<And>s p side a s'. P s \<Longrightarrow> place_grid_order s p side a = Inr s' \<Longrightarrow> P s'"
    and bounds: "\<And>s u l. P s \<Longrightarrow> P (s\<lparr>upper_price := u, lower_price := l\<rparr>)"
    and prices: "\<And>s g. P s \<Longrightarrow> P (s\<lparr>grid_prices := g\<rparr>)"
    and "P s"
  shows "P (state_of (initialize_grid s last_quote))"
proof (cases last_quote)
  case None
  with assms(4) show ?thesis by (simp add: initialize_grid_def)
next
  case (Some q)
  have tail: "P (state_of (case calculate_grid_prices s1 of Inl err \<Rightarrow> Inl err
                      | Inr s2 \<Rightarrow> setup_initial_orders s2 cp))" if "P s1" for s1 cp
  proof (rule calculate_then_setup_preserves [where P = P])
    show "P s1" by fact
  qed (rule place, assumption+, rule prices)
  have moved: "P (s\<lparr>upper_price := u, lower_price := l\<rparr>)" for u l
    by (rule bounds) (rule assms(4))
  show ?thesis
    unfolding initialize_grid_def Let_def Some option.case
    by (cases "upper_price s = None \<or> lower_price s = None")
       (simp_all only: if_True if_False tail moved assms(4))
qed

lemma on_order_filled_preserves:
  assumes place: "\<And>s p side a s'. P s \<Longrightarrow> place_grid_order s p side a = Inr s' \<Longrightarrow> P s'"
    and book: "\<And>s m n. P s \<Longrightarrow> P (s\<lparr>active_orders := m, total_trades := n\<rparr>)"
    and "P s"
  shows "P (state_of (on_order_filled s event))"
proof (cases "active_orders s (client_order_id event)")
  case None
  with assms(3) show ?thesis by (simp add: on_order_filled_def)
next
  case (Some grid_price)
  have P1: "P (s\<lparr> active_orders := m, total_trades := n \<rparr>)" for m n
    by (rule book) (rule assms(3))
  have placed: "P (state_of (place_grid_order
                  (s\<lparr> active_orders := m, total_trades := n \<rparr>) p side a))" for m n p side a
  proof (rule place_grid_order_preserves [where P = P])
    show "P (s\<lparr> active_orders := m, total_trades := n \<rparr>)" by (rule P1)
  qed (rule place)
  show ?thesis
    using Some P1 placed
    by (simp add: on_order_filled_def Let_def split: option.splits)
qed

lemma grid_step_preserves:
  assumes place: "\<And>s p side a s'. P s \<Longrightarrow> place_grid_order s p side a = Inr s' \<Longrightarrow> P s'"
    and book: "\<And>s m n. P s \<Longrightarrow> P (s\<lparr>active_orders := m, total_trades := n\<rparr>)"
    and bounds: "\<And>s u l. P s \<Longrightarrow> P (s\<lparr>upper_price := u, lower_price := l\<rparr>)"
    and prices: "\<And>s g. P s \<Longrightarrow> P (s\<lparr>grid_prices := g\<rparr>)"
    and cleared: "\<And>s. P s \<Longrightarrow> ev = Reset \<Longrightarrow> P (reset s)"
    and "P s"
  shows "P (state_of (grid_step s ev))"
proof (cases ev)
  case (Init_grid q)
  have "P (state_of (initialize_grid s q))"
  proof (rule initialize_grid_preserves [where P = P])
    show "P s" by fact
  qed (rule place, assumption+, rule bounds, assumption, rule prices)
  with Init_grid show ?thesis by (simp add: grid_step_def)
next
  case (Order_filled f)
  have "P (state_of (on_order_filled s f))"
  proof (rule on_order_filled_preserves [where P = P])
    show "P s" by fact
  qed (rule place, assumption+, rule book)
  with Order_filled show ?thesis by (simp add: grid_step_def)
next
  case (Quote_tick t)
  then show ?thesis using assms(6) by (simp add: grid_step_def split: sum.splits)
next
  case Stop
  then show ?thesis using assms(6) by (simp add: grid_step_def)
next
  case Reset
  then show ?thesis using cleared assms(6) by (simp add: grid_step_def)
qed

lemma grid_run_preserves:
  assumes place: "\<And>s p side a s'. P s \<Longrightarrow> place_grid_order s p side a = Inr s' \<Longrightarrow> P s'"
    and book: "\<And>s m n. P s \<Longrightarrow> P (s\<lparr>active_orders := m, total_trades := n\<rparr>)"
    and bounds: "\<And>s u l. P s \<Longrightarrow> P (s\<lparr>upper_price := u, lower_price := l\<rparr>)"
    and prices: "\<And>s g. P s \<Longrightarrow> P (s\<lparr>grid_prices := g\<rparr>)"
    and cleared: "\<And>s. P s \<Longrightarrow> Reset \<in> set evs \<Longrightarrow> P (reset s)"
  shows "P s \<Longrightarrow> P (state_of (grid_run s evs))"
  using cleared
proof (induction evs arbitrary: s)
  case Nil
  then show ?case by simp
next
  case (Cons ev evs)
  have one: "P (state_of (grid_step s ev))"
  proof (rule grid_step_preserves [where P = P])
    show "P s" by fact
    show "P (reset s')" if "P s'" "ev = Reset" for s'
      using that Cons.prems(2) by simp
  qed (rule place, assumption+, rule book, assumption, rule bounds, assumption, rule prices)
  show ?case
  proof (cases "grid_step s ev")
    case (Inl err)
    obtain e s' where "err = (e, s')" by (cases err)
    with Inl one show ?thesis by simp
  next
    case (Inr s')
    with one have "P s'" by simp
    then have "P (state_of (grid_run s' evs))"
      using Cons.IH Cons.prems(2) by simp
    with Inr show ?thesis by simp
  qed
qed

subsection \<open>The win rate logged on stop\<close>

text \<open>
  C4.  Whatever callbacks a Grid Strategy built by \<open>__init__\<close> has handled
  (grid initialisations, fills, quotes, stops and resets, in any order and number),
  its \<open>winning_trades\<close> counter is 0, and the win rate that \<open>on_stop\<close> logs,
  \<open>winning_trades / max(total_trades, 1) * 100\<close>, is 0.
\<close>

theorem win_rate_always_zero:
  "winning_trades (state_of (grid_run (GridStrategy_init config libraries) evs)) = 0 \<and>
   logged_win_rate (on_stop (state_of (grid_run (GridStrategy_init config libraries) evs))) = 0"
proof -
  have "winning_trades (state_of (grid_run (GridStrategy_init config libraries) evs)) = 0"
  proof (rule grid_run_preserves [where P = "\<lambda>s. winning_trades s = 0"])
    show "winning_trades (GridStrategy_init config libraries) = 0" by (simp add: GridStrategy_init_def)
  qed (auto simp: reset_def dest!: place_grid_order_Inr)
  then show ?thesis by (simp add: on_stop_def)
qed

subsection \<open>The scanned grid list\<close>

lemma scan_up_Some:
  "scan_up m cp ps = Some t \<Longrightarrow> t \<in> set ps \<and> fl (cp * fl 1.001) < t \<and> m t = None"
  by (induction ps) (auto split: if_splits)



lemma scan_down_Some:
  "scan_down m cp ps = Some t \<Longrightarrow> t \<in> set ps \<and> t < fl (cp * fl 0.999) \<and> m t = None"
  by (induction ps) (auto split: if_splits)

lemma scan_down_None:
  "scan_down m cp ps = None \<Longrightarrow> p \<in> set ps \<Longrightarrow> p < fl (cp * fl 0.999) \<Longrightarrow> m p \<noteq> None"
  by (induction ps) (auto split: if_splits)

lemma scan_down_greatest:
  "sorted (rev ps) \<Longrightarrow> scan_down m cp ps = Some t \<Longrightarrow>
     p \<in> set ps \<Longrightarrow> p < fl (cp * fl 0.999) \<Longrightarrow> m p = None \<Longrightarrow> p \<le> t"
proof (induction ps)
  case Nil
  then show ?case by simp
next
  case (Cons q qs)
  from Cons.prems(1) have tail: "sorted (rev qs)" and top: "\<forall>x \<in> set qs. x \<le> q"
    by (auto simp: sorted_append)
  show ?case
  proof (cases "q < fl (cp * fl 0.999) \<and> m q = None")
    case True
    with Cons.prems have "t = q" by simp
    with Cons.prems top show ?thesis by auto
  next
    case False
    with Cons.prems have "scan_down m cp qs = Some t" "p \<in> set qs" by auto
    with Cons.IH tail Cons.prems show ?thesis by simp
  qed
qed

lemma find_next_grid_price_free:
  "find_next_grid_price s cp direction = Some t \<Longrightarrow> grid_orders s t = None"
  by (auto simp: find_next_grid_price_def split: if_splits dest: scan_up_Some scan_down_Some)

subsection \<open>What a fill does\<close>

lemma on_order_filled_buy:
  assumes "active_orders s (client_order_id event) = Some grid_price"
    and "order_side event = BUY"
  shows "on_order_filled s event =
     (case scan_up (grid_orders s) (last_px event) (grid_prices s) of
        None \<Rightarrow> Inr (s\<lparr> active_orders := (active_orders s)(client_order_id event := None),
                       total_trades := total_trades s + 1 \<rparr>)
      | Some t \<Rightarrow>
          if t = 0
          then Inr (s\<lparr> active_orders := (active_orders s)(client_order_id event := None),
                       total_trades := total_trades s + 1 \<rparr>)
          else place_grid_order
                 (s\<lparr> active_orders := (active_orders s)(client_order_id event := None),
                     total_trades := total_trades s + 1 \<rparr>)
                 t SELL (fl (last_qty event * t)))"
  using assms
  by (simp add: on_order_filled_def find_next_grid_price_def Let_def split: option.splits)

lemma on_order_filled_sell:
  assumes "active_orders s (client_order_id event) = Some grid_price"
    and "order_side event = SELL"
  shows "on_order_filled s event =
     (case scan_down (grid_orders s) (last_px event) (rev (grid_prices s)) of
        None \<Rightarrow> Inr (s\<lparr> active_orders := (active_orders s)(client_order_id event := None),
                       total_trades := total_trades s + 1 \<rparr>)
      | Some t \<Rightarrow>
          if t = 0
          then Inr (s\<lparr> active_orders := (active_orders s)(client_order_id event := None),
                       total_trades := total_trades s + 1 \<rparr>)
          else place_grid_order
                 (s\<lparr> active_orders := (active_orders s)(client_order_id event := None),
                     total_trades := total_trades s + 1 \<rparr>)
                 t BUY (fl (last_qty event * last_px event)))"
  using assms
  by (simp add: on_order_filled_def find_next_grid_price_def Let_def split: option.splits)

lemma place_grid_order_accepted:
  assumes "p \<noteq> 0" and "order_factory (libs s) side (render 6 (fl (a / p))) (render 2 p)"
  shows "place_grid_order s p side a =
     Inr (s\<lparr> order_count := order_count s + 1,
             submitted := submitted s @ [\<lparr> o_side = side, o_quantity = render 6 (fl (a / p)),
                      o_price = render 2 p,
                      o_post_only = post_only s, o_client_order_id = order_count s \<rparr>],
             grid_orders := (grid_orders s)(p \<mapsto> order_count s),
             active_orders := (active_orders s)(order_count s \<mapsto> p) \<rparr>)"
  using assms by (simp add: place_grid_order_def Let_def)

lemma place_grid_order_refused:
  assumes "p \<noteq> 0" and "\<not> order_factory (libs s) side (render 6 (fl (a / p))) (render 2 p)"
  shows "place_grid_order s p side a = Inl (ValueError, s)"
  using assms by (simp add: place_grid_order_def Let_def)

lemma on_order_filled_entry:
  assumes "grid_orders s p \<noteq> None"
  shows "grid_orders (state_of (on_order_filled s event)) p = grid_orders s p"
proof (cases "active_orders s (client_order_id event)")
  case None
  then show ?thesis by (simp add: on_order_filled_def)
next
  case (Some grid_price)
  define s1 where "s1 = s\<lparr> active_orders := (active_orders s)(client_order_id event := None),
                     total_trades := total_trades s + 1 \<rparr>"
  have placed: "grid_orders (state_of (place_grid_order s1 t side a)) p = grid_orders s p"
    if "grid_orders s t = None" for t side a
  proof (cases "place_grid_order s1 t side a")
    case (Inl err)
    obtain e s' where "err = (e, s')" by (cases err)
    with Inl show ?thesis by (auto simp: s1_def dest: place_grid_order_Inl)
  next
    case (Inr s')
    from that assms have "t \<noteq> p" by auto
    with Inr show ?thesis by (auto simp: s1_def dest!: place_grid_order_Inr)
  qed
  show ?thesis
  proof (cases "order_side event")
    case BUY
    show ?thesis
      unfolding on_order_filled_buy [OF Some BUY] s1_def [symmetric]
      by (auto simp: s1_def [symmetric] placed split: option.splits dest: scan_up_Some)
         (simp_all add: s1_def)
  next
    case SELL
    show ?thesis
      unfolding on_order_filled_sell [OF Some SELL] s1_def [symmetric]
      by (auto simp: s1_def [symmetric] placed split: option.splits dest: scan_down_Some)
         (simp_all add: s1_def)
  qed
qed

subsection \<open>Constants and quantities of the runs\<close>

lemma fl_half [simp]: "fl (1 / 2) = 1 / 2"
  using fl_dyadic [of 1 1] by simp

lemma render_one [simp]: "render d 1 = 1"
  using render_of_int [of d 1] by simp

lemma render_half [simp]: "render 6 (1 / 2) = 1 / 2"
  by (simp add: render_def round_half_even_def Let_def)

lemma fl_thousandth: "fl (1 / 1000) = 1152921504606847 / 1152921504606846976"
  by (subst fl_eval_down [where n = 10]) (simp_all add: round_half_even_def Let_def)


lemma fl_999: "fl (999 / 1000) = 8998192055486251 / 9007199254740992"
  by (subst fl_eval_down [where n = 1]) (simp_all add: round_half_even_def Let_def)

lemma fl_thousandth_pos [simp]: "0 < fl (1 / 1000)"
  by (simp add: fl_thousandth)

lemma band_outside: "1 / 1000 \<le> x \<Longrightarrow> \<not> fl x < fl (1 / 1000)"
  using fl_mono [of "1 / 1000" x] by simp

lemma band_inside: "x \<le> 1047 / 1048576 \<Longrightarrow> fl x < fl (1 / 1000)"
proof -
  assume "x \<le> 1047 / 1048576"
  moreover have "fl (1047 / 1048576) = 1047 / 1048576" using fl_dyadic [of 1047 20] by simp
  ultimately have "fl x \<le> 1047 / 1048576" by (rule fl_le_float)
  then show ?thesis by (simp add: fl_thousandth)
qed



lemma down_threshold_le: "fl P = P \<Longrightarrow> 0 \<le> P \<Longrightarrow> fl (P * fl (999 / 1000)) \<le> P"
proof (rule fl_le_float)
  assume "0 \<le> P"
  then have "P * fl (999 / 1000) \<le> P * 1"
    by (intro mult_left_mono) (simp_all add: fl_999)
  then show "P * fl (999 / 1000) \<le> P" by simp
qed

lemma down_threshold_ge:
  "0 \<le> P \<Longrightarrow> d \<le> P * (15 / 16) \<Longrightarrow> fl d = d \<Longrightarrow> d \<le> fl (P * fl (999 / 1000))"
proof (rule fl_ge_float)
  assume "0 \<le> P" and "d \<le> P * (15 / 16)"
  have "P * (15 / 16) \<le> P * fl (999 / 1000)"
    using \<open>0 \<le> P\<close> by (intro mult_left_mono) (simp_all add: fl_999)
  with \<open>d \<le> P * (15 / 16)\<close> show "d \<le> P * fl (999 / 1000)" by simp
qed


lemma quantity_1000_1002: "render 6 (fl (500 / 501)) = 249501 / 250000"
proof (rule render_fl_between [where ?d1.0 = "1071598626 / 2 ^ 30" and ?d2.0 = "1071598627 / 2 ^ 30"])
  show "fl (1071598626 / 2 ^ 30) = 1071598626 / 2 ^ 30" using fl_dyadic [of 1071598626 30] by simp
  show "fl (1071598627 / 2 ^ 30) = 1071598627 / 2 ^ 30" using fl_dyadic [of 1071598627 30] by simp
qed (simp_all add: render_def round_half_even_def Let_def)

lemma quantity_100_120: "render 6 (fl (5 / 6)) = 833333 / 1000000"
proof (rule render_fl_between [where ?d1.0 = "894784853 / 2 ^ 30" and ?d2.0 = "894784854 / 2 ^ 30"])
  show "fl (894784853 / 2 ^ 30) = 894784853 / 2 ^ 30" using fl_dyadic [of 894784853 30] by simp
  show "fl (894784854 / 2 ^ 30) = 894784854 / 2 ^ 30" using fl_dyadic [of 894784854 30] by simp
qed (simp_all add: render_def round_half_even_def Let_def)

lemma quantity_60_110: "render 6 (fl (6 / 11)) = 109091 / 200000"
proof (rule render_fl_between [where ?d1.0 = "585677358 / 2 ^ 30" and ?d2.0 = "585677359 / 2 ^ 30"])
  show "fl (585677358 / 2 ^ 30) = 585677358 / 2 ^ 30" using fl_dyadic [of 585677358 30] by simp
  show "fl (585677359 / 2 ^ 30) = 585677359 / 2 ^ 30" using fl_dyadic [of 585677359 30] by simp
qed (simp_all add: render_def round_half_even_def Let_def)

subsection \<open>The three runs, evaluated\<close>

lemma plain_factory [simp]: "order_factory plain_libraries = positive_quantity"
  by (simp add: plain_libraries_def)


lemma linspace_tight: "linspace 1000 1006 4 = Inr [1000, 1002, 1004, 1006]"
  by (simp add: linspace_def Let_def upt_rec numeral_eq_Suc)

lemma linspace_wide: "linspace 100 120 3 = Inr [100, 110, 120]"
  by (simp add: linspace_def Let_def upt_rec numeral_eq_Suc)


lemma tight_started_eq:
  "tight_started =
     \<lparr> libs = plain_libraries,
       grid_levels = 4, grid_spacing_type = ''arithmetic'',
       upper_price = Some 1006, lower_price = Some 1000,
       price_range_ratio = fl (1 / 10), total_amount = 4000, post_only = True,
       grid_prices = [1000, 1002, 1004, 1006],
       grid_orders = [1000 \<mapsto> 0, 1002 \<mapsto> 1],
       filled_grids = {},
       active_orders = [0 \<mapsto> 1000, 1 \<mapsto> 1002],
       total_trades = 0, winning_trades = 0, total_pnl = 0,
       order_count = 2,
       submitted = [\<lparr> o_side = BUY, o_quantity = 1, o_price = 1000, o_post_only = True,
                       o_client_order_id = 0 \<rparr>,
                    \<lparr> o_side = BUY, o_quantity = 249501 / 250000, o_price = 1002,
                       o_post_only = True, o_client_order_id = 1 \<rparr>] \<rparr>"
  by (simp add: tight_started_def tight_config_def tight_quote_def GridStrategy_init_def
      grid_step_def initialize_grid_def calculate_grid_prices_def linspace_tight mid_price_def
      setup_initial_orders_def place_grid_order_def Let_def
      positive_quantity_def fl_minus band_inside band_outside quantity_1000_1002)

lemma wide_started_eq:
  "wide_started =
     \<lparr> libs = plain_libraries,
       grid_levels = 3, grid_spacing_type = ''arithmetic'',
       upper_price = Some 120, lower_price = Some 100,
       price_range_ratio = fl (1 / 10), total_amount = 300, post_only = True,
       grid_prices = [100, 110, 120],
       grid_orders = [100 \<mapsto> 0, 120 \<mapsto> 1],
       filled_grids = {},
       active_orders = [0 \<mapsto> 100, 1 \<mapsto> 120],
       total_trades = 0, winning_trades = 0, total_pnl = 0,
       order_count = 2,
       submitted = [\<lparr> o_side = BUY, o_quantity = 1, o_price = 100, o_post_only = True,
                       o_client_order_id = 0 \<rparr>,
                    \<lparr> o_side = SELL, o_quantity = 833333 / 1000000, o_price = 120,
                       o_post_only = True, o_client_order_id = 1 \<rparr>] \<rparr>"
  by (simp add: wide_started_def wide_config_def wide_quote_def GridStrategy_init_def
      grid_step_def initialize_grid_def calculate_grid_prices_def linspace_wide mid_price_def
      setup_initial_orders_def place_grid_order_def Let_def
      positive_quantity_def fl_minus band_inside band_outside quantity_100_120)



lemma threshold_120:
  "\<not> 120 < fl (120 * fl (999 / 1000))" "110 < fl (120 * fl (999 / 1000))"
  "100 < fl (120 * fl (999 / 1000))"
proof -
  have "fl (120 * fl (999 / 1000)) \<le> 120" by (rule down_threshold_le) simp_all
  moreover have "225 / 2 \<le> fl (120 * fl (999 / 1000))" by (rule down_threshold_ge) simp_all
  ultimately show "\<not> 120 < fl (120 * fl (999 / 1000))" "110 < fl (120 * fl (999 / 1000))"
    "100 < fl (120 * fl (999 / 1000))"
    by simp_all
qed


subsection \<open>Replacement after a BUY fill\<close>




subsection \<open>Replacement after a SELL fill\<close>

text \<open>
  C2, as amended.  Let a SELL fill of quantity \<open>Q\<close> at price \<open>P\<close> arrive for an order
  that is in \<open>active_orders\<close>, the grid list being ascending.  Let \<open>t\<close> be the largest
  grid price strictly below the float product \<open>P * 0.999\<close> that is not a key of
  \<open>grid_orders\<close>, and let \<open>t\<close> not be 0.  The BUY that \<open>on_order_filled\<close> asks the
  platform for has the price \<open>t\<close> rendered with 2 decimals and the quantity
  \<open>(Q * P) / t\<close>, computed in floats and rendered with 6 decimals: the amount is
  \<open>Q * P\<close>, the proceeds of the sale.  If the platform makes the order, it is the one
  order submitted; if the platform refuses it, \<open>ValueError\<close> leaves the handler and
  nothing is submitted.  If every grid price below the threshold is a key of
  \<open>grid_orders\<close>, nothing is submitted.
\<close>

theorem sell_fill_places_buy:
  assumes "active_orders s (client_order_id event) = Some grid_price"
    and "order_side event = SELL"
    and "sorted (grid_prices s)"
  shows "(\<forall>t. t \<in> set (grid_prices s) \<and> t < fl (last_px event * fl 0.999) \<and>
              grid_orders s t = None \<and>
              (\<forall>p \<in> set (grid_prices s).
                  p < fl (last_px event * fl 0.999) \<and> grid_orders s p = None \<longrightarrow> p \<le> t) \<and>
              t \<noteq> 0 \<longrightarrow>
            (if order_factory (libs s) BUY
                  (render 6 (fl (fl (last_qty event * last_px event) / t))) (render 2 t)
             then submitted (state_of (on_order_filled s event)) =
                    submitted s @
                      [\<lparr> o_side = BUY,
                          o_quantity = render 6 (fl (fl (last_qty event * last_px event) / t)),
                          o_price = render 2 t, o_post_only = post_only s,
                          o_client_order_id = order_count s \<rparr>]
             else on_order_filled s event =
                    Inl (ValueError,
                         s\<lparr> active_orders := (active_orders s)(client_order_id event := None),
                            total_trades := total_trades s + 1 \<rparr>))) \<and>
         ((\<forall>p \<in> set (grid_prices s).
              p < fl (last_px event * fl 0.999) \<longrightarrow> grid_orders s p \<noteq> None) \<longrightarrow>
            submitted (state_of (on_order_filled s event)) = submitted s)"
proof (intro conjI allI impI)
  have desc: "sorted (rev (rev (grid_prices s)))" using assms(3) by simp
  fix t
  assume t: "t \<in> set (grid_prices s) \<and> t < fl (last_px event * fl 0.999) \<and>
              grid_orders s t = None \<and>
              (\<forall>p \<in> set (grid_prices s).
                  p < fl (last_px event * fl 0.999) \<and> grid_orders s p = None \<longrightarrow> p \<le> t) \<and>
              t \<noteq> 0"
  have found: "scan_down (grid_orders s) (last_px event) (rev (grid_prices s)) = Some t"
  proof (cases "scan_down (grid_orders s) (last_px event) (rev (grid_prices s))")
    case None
    from scan_down_None [OF None, of t] t show ?thesis by simp
  next
    case (Some u)
    from scan_down_Some [OF Some] have u: "u \<in> set (grid_prices s)"
      "u < fl (last_px event * fl 0.999)" "grid_orders s u = None" by simp_all
    have "t \<le> u" using scan_down_greatest [OF desc Some, of t] t by simp
    moreover have "u \<le> t" using t u by blast
    ultimately have "u = t" by simp
    with Some show ?thesis by simp
  qed
  from t have nz: "t \<noteq> 0" by simp
  show "if order_factory (libs s) BUY
                  (render 6 (fl (fl (last_qty event * last_px event) / t))) (render 2 t)
             then submitted (state_of (on_order_filled s event)) =
                    submitted s @
                      [\<lparr> o_side = BUY,
                          o_quantity = render 6 (fl (fl (last_qty event * last_px event) / t)),
                          o_price = render 2 t, o_post_only = post_only s,
                          o_client_order_id = order_count s \<rparr>]
             else on_order_filled s event =
                    Inl (ValueError,
                         s\<lparr> active_orders := (active_orders s)(client_order_id event := None),
                            total_trades := total_trades s + 1 \<rparr>)"
    unfolding on_order_filled_sell [OF assms(1,2)] found
    using nz by (simp add: place_grid_order_def Let_def)
next
  assume none: "\<forall>p \<in> set (grid_prices s).
                  p < fl (last_px event * fl 0.999) \<longrightarrow> grid_orders s p \<noteq> None"
  show "submitted (state_of (on_order_filled s event)) = submitted s"
  proof (cases "scan_down (grid_orders s) (last_px event) (rev (grid_prices s))")
    case None
    then show ?thesis unfolding on_order_filled_sell [OF assms(1,2)] by simp
  next
    case (Some u)
    from scan_down_Some [OF Some] none show ?thesis by auto
  qed
qed

text \<open>
  The theorem at the second run: the SELL at 120 is filled for the quantity 0.5, and
  a BUY goes to 110.
\<close>

theorem sell_fill_places_buy_witness:
  "active_orders wide_started (client_order_id wide_sell_fill) = Some 120 \<and>
   order_side wide_sell_fill = SELL \<and> sorted (grid_prices wide_started) \<and>
   submitted (state_of (on_order_filled wide_started wide_sell_fill)) =
     submitted wide_started @
       [\<lparr> o_side = BUY, o_quantity = 109091 / 200000, o_price = 110, o_post_only = True,
           o_client_order_id = 2 \<rparr>]"
proof -
  have h1: "active_orders wide_started (client_order_id wide_sell_fill) = Some 120"
    by (simp add: wide_started_eq wide_sell_fill_def)
  have h2: "order_side wide_sell_fill = SELL" by (simp add: wide_sell_fill_def)
  have h3: "sorted (grid_prices wide_started)" by (simp add: wide_started_eq)
  note at_110 = sell_fill_places_buy [OF h1 h2 h3, THEN conjunct1, THEN spec, where x = 110]
  have "submitted (state_of (on_order_filled wide_started wide_sell_fill)) =
     submitted wide_started @
       [\<lparr> o_side = BUY, o_quantity = 109091 / 200000, o_price = 110, o_post_only = True,
           o_client_order_id = 2 \<rparr>]"
    using at_110
    by (simp add: wide_started_eq wide_sell_fill_def threshold_120 positive_quantity_def
        quantity_60_110)
  then show ?thesis using h1 h2 h3 by simp
qed

text \<open>
  The claim as stated fails there: the filled quantity is 0.5, the quantity of the
  replacement BUY is 0.545455, the rendering of \<open>0.5 * 120 / 110\<close>.
\<close>

theorem sell_fill_quantity_counterexample:
  "active_orders wide_started (client_order_id wide_sell_fill) = Some 120 \<and>
   order_side wide_sell_fill = SELL \<and>
   last_qty wide_sell_fill = 1 / 2 \<and>
   submitted (state_of (on_order_filled wide_started wide_sell_fill)) =
     submitted wide_started @
       [\<lparr> o_side = BUY, o_quantity = 109091 / 200000, o_price = 110, o_post_only = True,
           o_client_order_id = 2 \<rparr>] \<and>
   (109091 / 200000 :: real) \<noteq> 1 / 2"
  by (simp add: wide_started_eq wide_sell_fill_def on_order_filled_def find_next_grid_price_def
      place_grid_order_def Let_def positive_quantity_def threshold_120 quantity_60_110)

subsection \<open>A grid price is not selected twice\<close>

lemma grid_step_entry:
  assumes "grid_orders s p = Some k" and "ev \<noteq> Reset" and "\<forall>q. ev \<noteq> Init_grid (Some q)"
  shows "grid_orders (state_of (grid_step s ev)) p = Some k"
proof (cases ev)
  case (Init_grid q)
  with assms(3) have "q = None" by (cases q) auto
  with Init_grid assms(1) show ?thesis by (simp add: grid_step_def initialize_grid_def)
next
  case (Order_filled f)
  from assms(1) have "grid_orders (state_of (on_order_filled s f)) p = grid_orders s p"
    by (intro on_order_filled_entry) simp
  with Order_filled assms(1) show ?thesis by (simp add: grid_step_def)
next
  case (Quote_tick t)
  with assms(1) show ?thesis by (simp add: grid_step_def split: sum.splits)
next
  case Stop
  with assms(1) show ?thesis by (simp add: grid_step_def)
next
  case Reset
  with assms(2) show ?thesis by simp
qed

lemma grid_run_entry:
  "grid_orders s p = Some k \<Longrightarrow> Reset \<notin> set evs \<Longrightarrow> \<forall>q. Init_grid (Some q) \<notin> set evs \<Longrightarrow>
     grid_orders (state_of (grid_run s evs)) p = Some k"
proof (induction evs arbitrary: s)
  case Nil
  then show ?case by simp
next
  case (Cons ev evs)
  have one: "grid_orders (state_of (grid_step s ev)) p = Some k"
    using Cons.prems by (intro grid_step_entry) auto
  show ?case
  proof (cases "grid_step s ev")
    case (Inl err)
    obtain e s' where "err = (e, s')" by (cases err)
    with Inl one show ?thesis by simp
  next
    case (Inr s')
    with one have "grid_orders s' p = Some k" by simp
    then have "grid_orders (state_of (grid_run s' evs)) p = Some k"
      using Cons.prems by (intro Cons.IH) auto
    with Inr show ?thesis by simp
  qed
qed

text \<open>
  C10, as amended.  Once \<open>_place_grid_order\<close> has recorded an order at price \<open>p\<close>, then
  after any further callbacks other than \<open>reset\<close> the price is still a key of
  \<open>grid_orders\<close>, \<open>_find_next_grid_price\<close> does not return it for any reference price
  and direction, and a further fill leaves the entry of \<open>grid_orders\<close> at \<open>p\<close> as it
  is, so the replacement order is not recorded at \<open>p\<close>.  As long as the grid is not
  initialised again either, the order recorded at \<open>p\<close> stays the one placed first.
  \<open>reset\<close> empties \<open>grid_orders\<close>.
\<close>

theorem recorded_price_never_selected_again:
  assumes "place_grid_order s0 p side amount = Inr s"
    and "Reset \<notin> set evs"
  shows "grid_orders (state_of (grid_run s evs)) p \<noteq> None \<and>
         find_next_grid_price (state_of (grid_run s evs)) current_price direction \<noteq> Some p \<and>
         grid_orders (state_of (on_order_filled (state_of (grid_run s evs)) event)) p =
           grid_orders (state_of (grid_run s evs)) p \<and>
         ((\<forall>q. Init_grid (Some q) \<notin> set evs) \<longrightarrow>
            grid_orders (state_of (grid_run s evs)) p = Some (order_count s0)) \<and>
         grid_orders (reset (state_of (grid_run s evs))) = Map.empty"
proof -
  have first: "grid_orders s p = Some (order_count s0)"
    using place_grid_order_Inr [OF assms(1)] by simp
  have kept: "grid_orders (state_of (grid_run s evs)) p \<noteq> None"
  proof (rule grid_run_preserves [where P = "\<lambda>s. grid_orders s p \<noteq> None"])
    show "grid_orders s p \<noteq> None" using first by simp
  qed (use assms(2) in \<open>auto dest!: place_grid_order_Inr\<close>)
  have "find_next_grid_price (state_of (grid_run s evs)) current_price direction \<noteq> Some p"
    using kept by (auto dest: find_next_grid_price_free)
  moreover have "grid_orders (state_of (on_order_filled (state_of (grid_run s evs)) event)) p =
           grid_orders (state_of (grid_run s evs)) p"
    using kept by (rule on_order_filled_entry)
  moreover have "(\<forall>q. Init_grid (Some q) \<notin> set evs) \<longrightarrow>
            grid_orders (state_of (grid_run s evs)) p = Some (order_count s0)"
    using first assms(2) by (auto intro: grid_run_entry)
  moreover have "grid_orders (reset (state_of (grid_run s evs))) = Map.empty"
    by (simp add: reset_def)
  ultimately show ?thesis using kept by simp
qed

text \<open>
  The theorem at the first run, from the SELL recorded at 1004 through the two fills
  that follow it.
\<close>

theorem recorded_price_never_selected_again_witness:
  "place_grid_order tight_started 1004 SELL 502 = Inr tight_placed \<and>
   Reset \<notin> set [Order_filled tight_fill_2, Order_filled tight_fill_0] \<and>
   grid_orders (state_of (grid_run tight_placed
       [Order_filled tight_fill_2, Order_filled tight_fill_0])) 1004 = Some 2 \<and>
   find_next_grid_price (state_of (grid_run tight_placed
       [Order_filled tight_fill_2, Order_filled tight_fill_0])) 1000 ''up'' \<noteq> Some 1004"
proof -
  have h1: "place_grid_order tight_started 1004 SELL 502 = Inr tight_placed"
    by (simp add: tight_placed_def place_grid_order_def Let_def tight_started_eq
        positive_quantity_def)
  have h2: "Reset \<notin> set [Order_filled tight_fill_2, Order_filled tight_fill_0]"
    by simp
  have h3: "\<forall>q. Init_grid (Some q) \<notin> set [Order_filled tight_fill_2, Order_filled tight_fill_0]"
    by simp
  have h4: "order_count tight_started = 2" by (simp add: tight_started_eq)
  from recorded_price_never_selected_again [OF h1 h2, of 1000 "''up''"] h1 h2 h3 h4
  show ?thesis by simp
qed

text \<open>
  The headline of the claim, that a grid price hosts at most one order between
  resets, fails when the timer of \<open>on_start\<close> fires a second time: the initial
  placement does not consult \<open>grid_orders\<close>.  In the second run, initialised twice
  with the same quote and never reset, the prices 100 and 120 each receive two orders.
\<close>

theorem second_initialisation_counterexample:
  "Reset \<notin> set [Init_grid (Some wide_quote), Init_grid (Some wide_quote)] \<and>
   submitted (state_of (grid_run (GridStrategy_init wide_config plain_libraries)
       [Init_grid (Some wide_quote), Init_grid (Some wide_quote)])) =
     [\<lparr> o_side = BUY, o_quantity = 1, o_price = 100, o_post_only = True,
         o_client_order_id = 0 \<rparr>,
      \<lparr> o_side = SELL, o_quantity = 833333 / 1000000, o_price = 120, o_post_only = True,
         o_client_order_id = 1 \<rparr>,
      \<lparr> o_side = BUY, o_quantity = 1, o_price = 100, o_post_only = True,
         o_client_order_id = 2 \<rparr>,
      \<lparr> o_side = SELL, o_quantity = 833333 / 1000000, o_price = 120, o_post_only = True,
         o_client_order_id = 3 \<rparr>]"
  by (simp add: wide_config_def wide_quote_def GridStrategy_init_def
      grid_step_def initialize_grid_def calculate_grid_prices_def linspace_wide mid_price_def
      setup_initial_orders_def place_grid_order_def Let_def
      positive_quantity_def fl_minus band_inside band_outside quantity_100_120)

section \<open>Arithmetic grid prices\<close>






subsection \<open>Four levels from 100 to 100.6\<close>









subsection \<open>The grid of both strategies\<close>




section \<open>Properties of SimpleGridStrategy\<close>

lemma simple_place_loop_buys:
  "\<forall>ord \<in> set (sg_submitted s). o_side ord = BUY \<Longrightarrow>
   \<forall>ord \<in> set (sg_submitted (state_of (simple_place_loop cp apg ps s))). o_side ord = BUY"
proof (induction ps arbitrary: s)
  case Nil
  then show ?case by simp
next
  case (Cons p ps)
  let ?s' = "s\<lparr> sg_order_count := sg_order_count s + 1,
               sg_submitted := sg_submitted s @
                 [\<lparr> o_side = BUY, o_quantity = render 6 (fl (apg / p)), o_price = render 2 p,
                     o_post_only = False, o_client_order_id = sg_order_count s \<rparr>] \<rparr>"
  have "\<forall>ord \<in> set (sg_submitted ?s'). o_side ord = BUY"
    using Cons.prems by simp
  then have placed:
    "\<forall>ord \<in> set (sg_submitted (state_of (simple_place_loop cp apg ps ?s'))). o_side ord = BUY"
    by (rule Cons.IH)
  have skipped:
    "\<forall>ord \<in> set (sg_submitted (state_of (simple_place_loop cp apg ps s))). o_side ord = BUY"
    using Cons.prems by (rule Cons.IH)
  show ?case
    using placed skipped Cons.prems by (simp add: Let_def)
qed

lemma simple_step_buys:
  assumes "\<forall>ord \<in> set (sg_submitted s). o_side ord = BUY"
  shows "\<forall>ord \<in> set (sg_submitted (state_of (simple_step s ev))). o_side ord = BUY"
proof (cases ev)
  case Simple_start
  with assms show ?thesis
    by (simp add: simple_step_def simple_on_start_def split: sum.splits)
next
  case (Simple_quote tick)
  have "\<forall>ord \<in> set (sg_submitted (s\<lparr>orders_placed := True\<rparr>)). o_side ord = BUY"
    using assms by simp
  from simple_place_loop_buys [OF this] assms Simple_quote show ?thesis
    by (simp add: simple_step_def simple_on_quote_tick_def place_initial_orders_def Let_def)
next
  case (Simple_filled f)
  with assms show ?thesis by (simp add: simple_step_def simple_on_order_filled_def)
next
  case Simple_stop
  with assms show ?thesis by (simp add: simple_step_def)
next
  case Simple_reset
  with assms show ?thesis by (simp add: simple_step_def simple_reset_def)
qed

lemma simple_run_buys:
  "\<forall>ord \<in> set (sg_submitted s). o_side ord = BUY \<Longrightarrow>
   \<forall>ord \<in> set (sg_submitted (state_of (simple_run s evs))). o_side ord = BUY"
proof (induction evs arbitrary: s)
  case Nil
  then show ?case by simp
next
  case (Cons ev evs)
  have one: "\<forall>ord \<in> set (sg_submitted (state_of (simple_step s ev))). o_side ord = BUY"
    using Cons.prems by (rule simple_step_buys)
  show ?case
  proof (cases "simple_step s ev")
    case (Inl err)
    obtain e s' where "err = (e, s')" by (cases err)
    with Inl one show ?thesis by simp
  next
    case (Inr s')
    with one have "\<forall>ord \<in> set (sg_submitted s'). o_side ord = BUY" by simp
    then have "\<forall>ord \<in> set (sg_submitted (state_of (simple_run s' evs))). o_side ord = BUY"
      by (rule Cons.IH)
    with Inr show ?thesis by simp
  qed
qed

lemma linspace_simple: "linspace 41500 42500 5 = Inr [41500, 41750, 42000, 42250, 42500]"
  by (simp add: linspace_def Let_def upt_rec numeral_eq_Suc)

lemma render_zero [simp]: "render d 0 = 0"
  using render_of_int [of d 0] by simp

lemma mid_price_smoke: "mid_price smoke_quote = 42000"
  by (simp add: mid_price_def smoke_quote_def)

lemma quantity_200_41500: "render 6 (fl (2 / 415)) = 4819 / 1000000"
proof (rule render_fl_between [where ?d1.0 = "5174659 / 2 ^ 30" and ?d2.0 = "5174660 / 2 ^ 30"])
  show "fl (5174659 / 2 ^ 30) = 5174659 / 2 ^ 30" using fl_dyadic [of 5174659 30] by simp
  show "fl (5174660 / 2 ^ 30) = 5174660 / 2 ^ 30" using fl_dyadic [of 5174660 30] by simp
qed (simp_all add: render_def round_half_even_def Let_def)

lemma quantity_200_41750: "render 6 (fl (4 / 835)) = 479 / 100000"
proof (rule render_fl_between [where ?d1.0 = "5143673 / 2 ^ 30" and ?d2.0 = "5143674 / 2 ^ 30"])
  show "fl (5143673 / 2 ^ 30) = 5143673 / 2 ^ 30" using fl_dyadic [of 5143673 30] by simp
  show "fl (5143674 / 2 ^ 30) = 5143674 / 2 ^ 30" using fl_dyadic [of 5143674 30] by simp
qed (simp_all add: render_def round_half_even_def Let_def)

text \<open>
  C6, as amended.  With upper 42500, lower 41500 and 5 levels, \<open>on_start\<close> stores the
  grid prices 41500, 41750, 42000, 42250, 42500.  On a first quote with mid price
  42000 the strategy asks the platform for two BUY orders, at 41500 and at 41750, each
  for the quantity \<open>(total_amount / 5) / price\<close> computed in floats and rendered with 6
  decimals.  If the platform makes both orders, exactly these two are submitted; if it
  refuses one, \<open>ValueError\<close> leaves the handler with only the orders before it
  submitted.  And whatever the configuration, the platform and the callbacks a Simple
  Grid Strategy has handled, every order it has submitted is a BUY.
\<close>

theorem simple_grid_two_buys_no_sell:
  assumes "mid_price tick = 42000"
    and "scfg_upper_price config = 42500" and "scfg_lower_price config = 41500"
    and "scfg_grid_levels config = 5"
  shows "\<exists>s. simple_on_start (SimpleGridStrategy_init config factory) = Inr s \<and>
             sg_grid_prices s = [41500, 41750, 42000, 42250, 42500] \<and>
             simple_on_quote_tick s tick =
               (if \<not> factory BUY
                      (render 6 (fl (fl (scfg_total_amount config / 5) / 41500))) 41500
                then Inl (ValueError, s\<lparr>orders_placed := True\<rparr>)
                else if \<not> factory BUY
                      (render 6 (fl (fl (scfg_total_amount config / 5) / 41750))) 41750
                then Inl (ValueError,
                       s\<lparr> orders_placed := True, sg_order_count := 1,
                          sg_submitted :=
                            [\<lparr> o_side = BUY,
                                o_quantity =
                                  render 6 (fl (fl (scfg_total_amount config / 5) / 41500)),
                                o_price = 41500, o_post_only = False,
                                o_client_order_id = 0 \<rparr>] \<rparr>)
                else Inr (s\<lparr> orders_placed := True, sg_order_count := 2,
                       sg_submitted :=
                         [\<lparr> o_side = BUY,
                             o_quantity =
                               render 6 (fl (fl (scfg_total_amount config / 5) / 41500)),
                             o_price = 41500, o_post_only = False, o_client_order_id = 0 \<rparr>,
                          \<lparr> o_side = BUY,
                             o_quantity =
                               render 6 (fl (fl (scfg_total_amount config / 5) / 41750)),
                             o_price = 41750, o_post_only = False,
                             o_client_order_id = 1 \<rparr>] \<rparr>)) \<and>
             (\<forall>ord \<in> set (sg_submitted (state_of
                    (simple_run (SimpleGridStrategy_init any_config any_factory) evs))).
                 o_side ord = BUY)"
proof -
  define s where "s = (SimpleGridStrategy_init config factory)
                        \<lparr>sg_grid_prices := [41500, 41750, 42000, 42250, 42500]\<rparr>"
  have started: "simple_on_start (SimpleGridStrategy_init config factory) = Inr s"
    using assms(2-4)
    by (simp add: simple_on_start_def SimpleGridStrategy_init_def linspace_simple s_def)
  have prices: "sg_grid_prices s = [41500, 41750, 42000, 42250, 42500]"
    by (simp add: s_def)
  have placed: "simple_on_quote_tick s tick =
               (if \<not> factory BUY
                      (render 6 (fl (fl (scfg_total_amount config / 5) / 41500))) 41500
                then Inl (ValueError, s\<lparr>orders_placed := True\<rparr>)
                else if \<not> factory BUY
                      (render 6 (fl (fl (scfg_total_amount config / 5) / 41750))) 41750
                then Inl (ValueError,
                       s\<lparr> orders_placed := True, sg_order_count := 1,
                          sg_submitted :=
                            [\<lparr> o_side = BUY,
                                o_quantity =
                                  render 6 (fl (fl (scfg_total_amount config / 5) / 41500)),
                                o_price = 41500, o_post_only = False,
                                o_client_order_id = 0 \<rparr>] \<rparr>)
                else Inr (s\<lparr> orders_placed := True, sg_order_count := 2,
                       sg_submitted :=
                         [\<lparr> o_side = BUY,
                             o_quantity =
                               render 6 (fl (fl (scfg_total_amount config / 5) / 41500)),
                             o_price = 41500, o_post_only = False, o_client_order_id = 0 \<rparr>,
                          \<lparr> o_side = BUY,
                             o_quantity =
                               render 6 (fl (fl (scfg_total_amount config / 5) / 41750)),
                             o_price = 41750, o_post_only = False,
                             o_client_order_id = 1 \<rparr>] \<rparr>))"
    using assms
    by (simp add: simple_on_quote_tick_def place_initial_orders_def s_def
        SimpleGridStrategy_init_def Let_def fl_minus)
  have "\<forall>ord \<in> set (sg_submitted (SimpleGridStrategy_init any_config any_factory)).
          o_side ord = BUY"
    by (simp add: SimpleGridStrategy_init_def)
  then have never: "\<forall>ord \<in> set (sg_submitted (state_of
                    (simple_run (SimpleGridStrategy_init any_config any_factory) evs))).
                 o_side ord = BUY"
    by (rule simple_run_buys)
  from started prices placed never show ?thesis by blast
qed

text \<open>
  The theorem at the smoke-test configuration with 1000 USDT, a quote 41999.5 /
  42000.5 and a platform that makes every order of positive quantity: the BUYs are
  for 0.004819 and 0.004790.
\<close>

theorem simple_grid_two_buys_no_sell_witness:
  "mid_price smoke_quote = 42000 \<and>
   scfg_upper_price smoke_config = 42500 \<and> scfg_lower_price smoke_config = 41500 \<and>
   scfg_grid_levels smoke_config = 5 \<and>
   sg_grid_prices smoke_started = [41500, 41750, 42000, 42250, 42500] \<and>
   sg_submitted (state_of (simple_on_quote_tick smoke_started smoke_quote)) =
     [\<lparr> o_side = BUY, o_quantity = 4819 / 1000000, o_price = 41500, o_post_only = False,
         o_client_order_id = 0 \<rparr>,
      \<lparr> o_side = BUY, o_quantity = 479 / 100000, o_price = 41750, o_post_only = False,
         o_client_order_id = 1 \<rparr>]"
proof -
  have h1: "mid_price smoke_quote = 42000" by (rule mid_price_smoke)
  have h2: "scfg_upper_price smoke_config = 42500"
    and h3: "scfg_lower_price smoke_config = 41500"
    and h4: "scfg_grid_levels smoke_config = 5"
    by (simp_all add: smoke_config_def)
  from simple_grid_two_buys_no_sell [OF h1 h2 h3 h4, of positive_quantity]
  obtain s where
    s: "simple_on_start (SimpleGridStrategy_init smoke_config positive_quantity) = Inr s"
       "sg_grid_prices s = [41500, 41750, 42000, 42250, 42500]"
       "simple_on_quote_tick s smoke_quote =
               (if \<not> positive_quantity BUY
                      (render 6 (fl (fl (scfg_total_amount smoke_config / 5) / 41500))) 41500
                then Inl (ValueError, s\<lparr>orders_placed := True\<rparr>)
                else if \<not> positive_quantity BUY
                      (render 6 (fl (fl (scfg_total_amount smoke_config / 5) / 41750))) 41750
                then Inl (ValueError,
                       s\<lparr> orders_placed := True, sg_order_count := 1,
                          sg_submitted :=
                            [\<lparr> o_side = BUY,
                                o_quantity =
                                  render 6 (fl (fl (scfg_total_amount smoke_config / 5) / 41500)),
                                o_price = 41500, o_post_only = False,
                                o_client_order_id = 0 \<rparr>] \<rparr>)
                else Inr (s\<lparr> orders_placed := True, sg_order_count := 2,
                       sg_submitted :=
                         [\<lparr> o_side = BUY,
                             o_quantity =
                               render 6 (fl (fl (scfg_total_amount smoke_config / 5) / 41500)),
                             o_price = 41500, o_post_only = False, o_client_order_id = 0 \<rparr>,
                          \<lparr> o_side = BUY,
                             o_quantity =
                               render 6 (fl (fl (scfg_total_amount smoke_config / 5) / 41750)),
                             o_price = 41750, o_post_only = False,
                             o_client_order_id = 1 \<rparr>] \<rparr>))"
    by blast
  from s(1) have "smoke_started = s" by (simp add: smoke_started_def)
  with s(2,3) h1 h2 h3 h4 show ?thesis
    by (simp add: smoke_config_def positive_quantity_def quantity_200_41500 quantity_200_41750)
qed

text \<open>
  The claim as stated fails for the same configuration with no capital, on a platform
  that refuses, as the real one does, an order whose quantity is not positive: the
  quantity of the first BUY is rendered as 0.000000, \<open>ValueError\<close> leaves the handler,
  and no order is submitted.
\<close>

theorem no_capital_counterexample:
  "scfg_upper_price empty_handed_config = 42500 \<and>
   scfg_lower_price empty_handed_config = 41500 \<and>
   scfg_grid_levels empty_handed_config = 5 \<and>
   mid_price smoke_quote = 42000 \<and>
   simple_run (SimpleGridStrategy_init empty_handed_config positive_quantity)
       [Simple_start, Simple_quote smoke_quote] =
     Inl (ValueError,
          \<lparr> sg_order_factory = positive_quantity, sg_total_amount = 0, sg_grid_levels = 5,
            sg_upper_price = 42500, sg_lower_price = 41500,
            sg_grid_prices = [41500, 41750, 42000, 42250, 42500],
            orders_placed = True, sg_order_count = 0, sg_submitted = [] \<rparr>)"
  by (simp add: empty_handed_config_def SimpleGridStrategy_init_def simple_step_def
      simple_on_start_def linspace_simple simple_on_quote_tick_def place_initial_orders_def
      mid_price_smoke Let_def fl_minus positive_quantity_def)

section \<open>The mainnet confirmation\<close>

lemma lower_YES: "lower ''YES'' = ''yes''"
  by code_simp

lemma lower_no: "lower ''no'' = ''no''"
  by (simp add: lower_def lower_char_def)

lemma complete_summary:
  "print_summary complete_document =
     ([Print_strategy_name, Print_instrument, Print_grid_levels, Print_total_amount], True)"
  by (simp add: print_summary_def has_key_def complete_document_def)

lemma complete_config: "create_grid_strategy_config complete_document"
  by (simp add: create_grid_strategy_config_def has_key_def has_section_def
      complete_document_def)

text \<open>
  C3, as amended.  On a mainnet launch, a typed line whose lower-cased form differs
  from \<open>yes\<close> makes \<open>main\<close> stop after the warning, the prompt and the
  cancellation message: no path check, no configuration loading, no environment
  lookup and no node run.  A line whose lower-cased form is \<open>yes\<close> lets the launch
  go on to the path check and, if the file exists, to \<open>run_grid_strategy\<close> on
  mainnet.
\<close>

theorem mainnet_needs_yes:
  assumes "arg_mainnet args" and "typed_line w = Some confirm"
  shows "(lower confirm \<noteq> ''yes'' \<longrightarrow>
            launcher_main args w = [Print_mainnet_warning, Read_input, Print_cancelled]) \<and>
         (lower confirm = ''yes'' \<longrightarrow>
            launcher_main args w =
              Print_mainnet_warning # Read_input # Check_path_exists (arg_config args) #
              (if \<not> path_exists w (arg_config args) then [Print_config_missing (arg_config args)]
               else Makedirs ''logs'' # run_grid_strategy w (arg_config args) False))"
  using assms by (simp add: launcher_main_def Let_def)

text \<open>The theorem at the typed lines \<open>no\<close> and \<open>yes\<close>.\<close>

theorem mainnet_needs_yes_witness:
  "arg_mainnet mainnet_args \<and> typed_line (ready_world ''no'') = Some ''no'' \<and>
   typed_line (ready_world ''yes'') = Some ''yes'' \<and>
   launcher_main mainnet_args (ready_world ''no'') =
     [Print_mainnet_warning, Read_input, Print_cancelled] \<and>
   launcher_main mainnet_args (ready_world ''yes'') =
     [Print_mainnet_warning, Read_input,
      Check_path_exists ''config/strategies/grid_btcusdt.yaml'', Makedirs ''logs'',
      Print_banner, Load_strategy_config ''config/strategies/grid_btcusdt.yaml'',
      Print_strategy_name, Print_instrument, Print_grid_levels, Print_total_amount,
      Getenv ''BYBIT_API_KEY'', Getenv ''BYBIT_API_SECRET'',
      Trading_node_run False, Print_stopped]"
proof -
  have h1: "arg_mainnet mainnet_args" by (simp add: mainnet_args_def)
  have h2: "typed_line (ready_world ''no'') = Some ''no''" by (simp add: ready_world_def)
  have h3: "typed_line (ready_world ''yes'') = Some ''yes''" by (simp add: ready_world_def)
  have l1: "lower ''no'' \<noteq> ''yes''" by (simp add: lower_no)
  have l2: "lower ''yes'' = ''yes''" by code_simp
  from mainnet_needs_yes [OF h1 h2] l1
  have no: "launcher_main mainnet_args (ready_world ''no'') =
     [Print_mainnet_warning, Read_input, Print_cancelled]" by blast
  from mainnet_needs_yes [OF h1 h3] l2
  have "launcher_main mainnet_args (ready_world ''yes'') =
      Print_mainnet_warning # Read_input # Check_path_exists (arg_config mainnet_args) #
      (if \<not> path_exists (ready_world ''yes'') (arg_config mainnet_args)
       then [Print_config_missing (arg_config mainnet_args)]
       else Makedirs ''logs'' #
            run_grid_strategy (ready_world ''yes'') (arg_config mainnet_args) False)"
    by blast
  then have yes: "launcher_main mainnet_args (ready_world ''yes'') =
     [Print_mainnet_warning, Read_input,
      Check_path_exists ''config/strategies/grid_btcusdt.yaml'', Makedirs ''logs'',
      Print_banner, Load_strategy_config ''config/strategies/grid_btcusdt.yaml'',
      Print_strategy_name, Print_instrument, Print_grid_levels, Print_total_amount,
      Getenv ''BYBIT_API_KEY'', Getenv ''BYBIT_API_SECRET'',
      Trading_node_run False, Print_stopped]"
    by (simp add: mainnet_args_def ready_world_def run_grid_strategy_def complete_summary
        complete_config create_trading_node_config_def getenv_def Let_def)
  from h1 h2 h3 no yes show ?thesis by simp
qed

text \<open>
  The claim as stated fails at the typed line \<open>YES\<close>: it is not the string \<open>yes\<close>,
  and the launch goes through to the node run on mainnet.
\<close>

theorem mainnet_upper_case_yes_counterexample: "''YES'' \<noteq> ''yes'' \<and>
   launcher_main mainnet_args (ready_world ''YES'') =
     [Print_mainnet_warning, Read_input,
      Check_path_exists ''config/strategies/grid_btcusdt.yaml'', Makedirs ''logs'',
      Print_banner, Load_strategy_config ''config/strategies/grid_btcusdt.yaml'',
      Print_strategy_name, Print_instrument, Print_grid_levels, Print_total_amount,
      Getenv ''BYBIT_API_KEY'', Getenv ''BYBIT_API_SECRET'',
      Trading_node_run False, Print_stopped]"
  by (simp add: launcher_main_def mainnet_args_def ready_world_def lower_YES
      run_grid_strategy_def complete_summary complete_config create_trading_node_config_def
      getenv_def Let_def)

section \<open>The generated quote frame\<close>

lemma date_range_one_day:
  "date_range (now - timedelta_days 1) now 30000000 =
     map (\<lambda>i. now - 86400000000 + int i * 30000000) [0 ..< 2881]"
  by (simp add: date_range_def timedelta_days_def)

lemma linspace_length:
  "0 \<le> n \<Longrightarrow> \<exists>g. linspace lo up n = Inr g \<and> length g = nat n"
  by (simp add: linspace_def Let_def)

lemma constructed_frame_btc:
  "\<exists>phases. length phases = 2881 \<and>
     constructed_frame ''BTCUSDT'' 1 now draws =
       Inr (map (\<lambda>i.
              \<lparr> timestamp = now - 86400000000 + int i * 30000000,
                bid_price = 42000 * (1 + cumsum (price_changes draws) i * (1 - 0.01))
                              + sin (phases ! i) * 42000 * 0.02 - 1 / 2,
                ask_price = 42000 * (1 + cumsum (price_changes draws) i * (1 - 0.01))
                              + sin (phases ! i) * 42000 * 0.02 + 1 / 2,
                bid_size = bid_sizes draws i,
                ask_size = ask_sizes draws i \<rparr>)
            [0 ..< 2881])"
proof -
  obtain phases where ph: "linspace 0 (4 * pi) 2881 = Inr phases" "length phases = 2881"
    using linspace_length [of 2881 0 "4 * pi"] by auto
  have "constructed_frame ''BTCUSDT'' 1 now draws =
       Inr (map (\<lambda>i.
              \<lparr> timestamp = now - 86400000000 + int i * 30000000,
                bid_price = 42000 * (1 + cumsum (price_changes draws) i * (1 - 0.01))
                              + sin (phases ! i) * 42000 * 0.02 - 1 / 2,
                ask_price = 42000 * (1 + cumsum (price_changes draws) i * (1 - 0.01))
                              + sin (phases ! i) * 42000 * 0.02 + 1 / 2,
                bid_size = bid_sizes draws i,
                ask_size = ask_sizes draws i \<rparr>)
            [0 ..< 2881])"
    unfolding constructed_frame_def date_range_one_day Let_def
    using ph(1) by (simp cong: map_cong)
  with ph(2) show ?thesis by blast
qed

text \<open>
  C7.  For symbol BTCUSDT and one day, whatever the current time and the random draws,
  \<open>generate_forex_data\<close> returns normally with 2881 timestamps and 2881 rows; the
  timestamps start one day before now, end at now and are 30 seconds apart; and in the
  frame as constructed, before the noise is applied, the bid price of every row is
  below its ask price.
\<close>

theorem btc_one_day_frame:
  "\<exists>df timestamps final.
     constructed_frame ''BTCUSDT'' 1 now draws = Inr df \<and>
     generate_forex_data ''BTCUSDT'' 1 now draws = Inr (timestamps, final) \<and>
     length df = 2881 \<and> length timestamps = 2881 \<and> length final = 2881 \<and>
     timestamps = map timestamp df \<and>
     hd timestamps = now - timedelta_days 1 \<and> last timestamps = now \<and>
     (\<forall>i. Suc i < 2881 \<longrightarrow> timestamps ! Suc i - timestamps ! i = 30000000) \<and>
     (\<forall>i < 2881. bid_price (df ! i) < ask_price (df ! i))"
proof -
  obtain phases where ph: "length phases = 2881" and
    df: "constructed_frame ''BTCUSDT'' 1 now draws =
       Inr (map (\<lambda>i.
              \<lparr> timestamp = now - 86400000000 + int i * 30000000,
                bid_price = 42000 * (1 + cumsum (price_changes draws) i * (1 - 0.01))
                              + sin (phases ! i) * 42000 * 0.02 - 1 / 2,
                ask_price = 42000 * (1 + cumsum (price_changes draws) i * (1 - 0.01))
                              + sin (phases ! i) * 42000 * 0.02 + 1 / 2,
                bid_size = bid_sizes draws i,
                ask_size = ask_sizes draws i \<rparr>)
            [0 ..< 2881])" (is "_ = Inr ?df")
    using constructed_frame_btc by blast
  have len: "length ?df = 2881" by simp
  have ts: "map timestamp ?df = map (\<lambda>i. now - 86400000000 + int i * 30000000) [0 ..< 2881]"
    by (simp add: comp_def)
  have first: "hd (map timestamp ?df) = now - timedelta_days 1"
    unfolding ts by (simp add: hd_map upt_rec [of 0 2881] timedelta_days_def)
  have lst: "last (map timestamp ?df) = now"
    unfolding ts by (simp add: last_map)
  have gaps: "\<forall>i. Suc i < 2881 \<longrightarrow>
      map timestamp ?df ! Suc i - map timestamp ?df ! i = 30000000"
    unfolding ts by simp
  have spread: "\<forall>i < 2881. bid_price (?df ! i) < ask_price (?df ! i)"
    by simp
  have gen: "generate_forex_data ''BTCUSDT'' 1 now draws =
      Inr (map timestamp ?df,
           map (\<lambda>i. (?df ! i)
                      \<lparr> bid_price := bid_price (?df ! i) *
                           (1 + bid_noise draws i * session_volatility (timestamp (?df ! i))),
                        ask_price := ask_price (?df ! i) *
                           (1 + ask_noise draws i * session_volatility (timestamp (?df ! i))) \<rparr>)
                 [0 ..< length ?df])"
    unfolding generate_forex_data_def df by simp
  show ?thesis
    using df gen len first lst gaps spread
    by (intro exI conjI) (assumption | simp only: length_map length_upt | simp)+
qed

text \<open>The theorem at time 0 with all increments and noise zero: the frame's first row.\<close>

theorem btc_one_day_frame_witness:
  "length (projr (constructed_frame ''BTCUSDT'' 1 0 still_draws)) = 2881 \<and>
   (0::nat) < 2881 \<and>
   bid_price (projr (constructed_frame ''BTCUSDT'' 1 0 still_draws) ! 0)
     < ask_price (projr (constructed_frame ''BTCUSDT'' 1 0 still_draws) ! 0)"
proof -
  from btc_one_day_frame [of 0 still_draws]
  obtain frame where
    f: "constructed_frame ''BTCUSDT'' 1 0 still_draws = Inr frame" "length frame = 2881"
       "\<forall>i < 2881. bid_price (frame ! i) < ask_price (frame ! i)"
    by blast
  have z: "(0::nat) < 2881" by simp
  with f(3) have "bid_price (frame ! 0) < ask_price (frame ! 0)" by blast
  with f(1,2) z show ?thesis by simp
qed

section \<open>The provider fallback chain\<close>

lemma try_cryptocompare_eq:
  "truthy (cryptocompare_data w) \<Longrightarrow>
     success (try_cryptocompare w st) \<and> df (try_cryptocompare w st) \<noteq> [] \<and>
     effects (try_cryptocompare w st) = effects st @ [Request CryptoCompare]"
  "\<not> truthy (cryptocompare_data w) \<Longrightarrow>
     try_cryptocompare w st = st\<lparr>effects := effects st @ [Request CryptoCompare]\<rparr>"
  by (auto simp: try_cryptocompare_def truthy_def convert_cryptocompare_to_df_def Let_def
      split: option.splits)

lemma try_coingecko_eq:
  "success st \<Longrightarrow> try_coingecko w st = st"
  "\<not> success st \<Longrightarrow> truthy (coingecko_data w) \<Longrightarrow>
     success (try_coingecko w st) \<and> df (try_coingecko w st) \<noteq> [] \<and>
     effects (try_coingecko w st) = effects st @ [Sleep_seconds 1, Request CoinGecko]"
  "\<not> success st \<Longrightarrow> \<not> truthy (coingecko_data w) \<Longrightarrow>
     try_coingecko w st = st\<lparr>effects := effects st @ [Sleep_seconds 1, Request CoinGecko]\<rparr>"
  by (auto simp: try_coingecko_def truthy_def convert_coingecko_to_df_def Let_def
      split: option.splits)

lemma try_kraken_eq:
  "success st \<Longrightarrow> try_kraken w st = st"
  "\<not> success st \<Longrightarrow> truthy (kraken_data w) \<Longrightarrow>
     success (try_kraken w st) \<and> df (try_kraken w st) \<noteq> [] \<and>
     effects (try_kraken w st) = effects st @ [Request Kraken]"
  "\<not> success st \<Longrightarrow> \<not> truthy (kraken_data w) \<Longrightarrow>
     try_kraken w st = st\<lparr>effects := effects st @ [Request Kraken]\<rparr>"
  by (auto simp: try_kraken_def truthy_def convert_kraken_to_df_def Let_def
      split: option.splits)

lemma try_coinbase_eq:
  "success st \<Longrightarrow> try_coinbase w st = st"
  "\<not> success st \<Longrightarrow> truthy (coinbase_data w) \<Longrightarrow>
     success (try_coinbase w st) \<and> df (try_coinbase w st) \<noteq> [] \<and>
     effects (try_coinbase w st) = effects st @ [Request Coinbase]"
  "\<not> success st \<Longrightarrow> \<not> truthy (coinbase_data w) \<Longrightarrow>
     try_coinbase w st = st\<lparr>effects := effects st @ [Request Coinbase]\<rparr>"
  by (auto simp: try_coinbase_def truthy_def convert_coinbase_to_df_def Let_def
      split: option.splits)

lemma provider_chain_cases:
  "(truthy (cryptocompare_data w) \<and>
      success (provider_chain w) \<and> df (provider_chain w) \<noteq> [] \<and>
      effects (provider_chain w) =
        [Make_directory ''nautilus_data/historical'', Request CryptoCompare]) \<or>
   (\<not> truthy (cryptocompare_data w) \<and> truthy (coingecko_data w) \<and>
      success (provider_chain w) \<and> df (provider_chain w) \<noteq> [] \<and>
      effects (provider_chain w) =
        [Make_directory ''nautilus_data/historical'', Request CryptoCompare,
         Sleep_seconds 1, Request CoinGecko]) \<or>
   (\<not> truthy (cryptocompare_data w) \<and> \<not> truthy (coingecko_data w) \<and>
      truthy (kraken_data w) \<and>
      success (provider_chain w) \<and> df (provider_chain w) \<noteq> [] \<and>
      effects (provider_chain w) =
        [Make_directory ''nautilus_data/historical'', Request CryptoCompare,
         Sleep_seconds 1, Request CoinGecko, Request Kraken]) \<or>
   (\<not> truthy (cryptocompare_data w) \<and> \<not> truthy (coingecko_data w) \<and>
      \<not> truthy (kraken_data w) \<and> truthy (coinbase_data w) \<and>
      success (provider_chain w) \<and> df (provider_chain w) \<noteq> [] \<and>
      effects (provider_chain w) =
        [Make_directory ''nautilus_data/historical'', Request CryptoCompare,
         Sleep_seconds 1, Request CoinGecko, Request Kraken, Request Coinbase]) \<or>
   (\<not> truthy (cryptocompare_data w) \<and> \<not> truthy (coingecko_data w) \<and>
      \<not> truthy (kraken_data w) \<and> \<not> truthy (coinbase_data w) \<and>
      \<not> success (provider_chain w) \<and>
      effects (provider_chain w) =
        [Make_directory ''nautilus_data/historical'', Request CryptoCompare,
         Sleep_seconds 1, Request CoinGecko, Request Kraken, Request Coinbase])"
proof -
  define st0 :: download_state where
    "st0 = \<lparr> success = False, df = [], effects = [Make_directory ''nautilus_data/historical''] \<rparr>"
  define st1 where "st1 = try_cryptocompare w st0"
  define st2 where "st2 = try_coingecko w st1"
  define st3 where "st3 = try_kraken w st2"
  have chain: "provider_chain w = try_coinbase w st3"
    by (simp add: provider_chain_def st0_def st1_def st2_def st3_def)
  show ?thesis
  proof (cases "truthy (cryptocompare_data w)")
    case True
    from try_cryptocompare_eq(1) [OF True, of st0]
    have "success st1 \<and> df st1 \<noteq> [] \<and> effects st1 = effects st0 @ [Request CryptoCompare]"
      by (simp add: st1_def)
    then show ?thesis
      using True by (simp add: chain st3_def st2_def try_coingecko_eq(1) try_kraken_eq(1)
          try_coinbase_eq(1) st0_def)
  next
    case cc: False
    have e1: "st1 = st0\<lparr>effects := effects st0 @ [Request CryptoCompare]\<rparr>"
      using try_cryptocompare_eq(2) [OF cc] by (simp add: st1_def)
    then have f1: "\<not> success st1" by (simp add: st0_def)
    show ?thesis
    proof (cases "truthy (coingecko_data w)")
      case True
      from try_coingecko_eq(2) [OF f1 True]
      have "success st2 \<and> df st2 \<noteq> [] \<and>
            effects st2 = effects st1 @ [Sleep_seconds 1, Request CoinGecko]"
        by (simp add: st2_def)
      then show ?thesis
        using cc True by (simp add: chain st3_def try_kraken_eq(1) try_coinbase_eq(1) e1 st0_def)
    next
      case cg: False
      have e2: "st2 = st1\<lparr>effects := effects st1 @ [Sleep_seconds 1, Request CoinGecko]\<rparr>"
        using try_coingecko_eq(3) [OF f1 cg] by (simp add: st2_def)
      then have f2: "\<not> success st2" using f1 by simp
      show ?thesis
      proof (cases "truthy (kraken_data w)")
        case True
        from try_kraken_eq(2) [OF f2 True]
        have "success st3 \<and> df st3 \<noteq> [] \<and> effects st3 = effects st2 @ [Request Kraken]"
          by (simp add: st3_def)
        then show ?thesis
          using cc cg True by (simp add: chain try_coinbase_eq(1) e2 e1 st0_def)
      next
        case kr: False
        have e3: "st3 = st2\<lparr>effects := effects st2 @ [Request Kraken]\<rparr>"
          using try_kraken_eq(3) [OF f2 kr] by (simp add: st3_def)
        then have f3: "\<not> success st3" using f2 by simp
        show ?thesis
        proof (cases "truthy (coinbase_data w)")
          case True
          from try_coinbase_eq(2) [OF f3 True]
          show ?thesis
            using cc cg kr True by (simp add: chain e3 e2 e1 st0_def)
        next
          case cb: False
          from try_coinbase_eq(3) [OF f3 cb]
          show ?thesis
            using cc cg kr cb f3 by (simp add: chain e3 e2 e1 st0_def)
        qed
      qed
    qed
  qed
qed

lemma try_cryptocompare_rows:
  "cryptocompare_data w = Some rows \<Longrightarrow> rows \<noteq> [] \<Longrightarrow>
     df (try_cryptocompare w st) = convert_cryptocompare_to_df rows"
  by (simp add: try_cryptocompare_def Let_def)

lemma try_coingecko_rows:
  "\<not> success st \<Longrightarrow> coingecko_data w = Some rows \<Longrightarrow> rows \<noteq> [] \<Longrightarrow>
     df (try_coingecko w st) = convert_coingecko_to_df rows"
  by (simp add: try_coingecko_def Let_def)

lemma try_kraken_rows:
  "\<not> success st \<Longrightarrow> kraken_data w = Some rows \<Longrightarrow> rows \<noteq> [] \<Longrightarrow>
     df (try_kraken w st) = convert_kraken_to_df rows"
  by (simp add: try_kraken_def Let_def)

lemma try_coinbase_rows:
  "\<not> success st \<Longrightarrow> coinbase_data w = Some rows \<Longrightarrow> rows \<noteq> [] \<Longrightarrow>
     df (try_coinbase w st) = convert_coinbase_to_df rows"
  by (simp add: try_coinbase_def Let_def)

lemma truthy_Some: "data = Some rows \<Longrightarrow> rows \<noteq> [] \<Longrightarrow> truthy data"
  by (simp add: truthy_def)

lemma provider_chain_df:
  "cryptocompare_data w = Some cc_rows \<Longrightarrow> cc_rows \<noteq> [] \<Longrightarrow>
     df (provider_chain w) = convert_cryptocompare_to_df cc_rows"
  "\<not> truthy (cryptocompare_data w) \<Longrightarrow> coingecko_data w = Some cg_rows \<Longrightarrow> cg_rows \<noteq> [] \<Longrightarrow>
     df (provider_chain w) = convert_coingecko_to_df cg_rows"
  "\<not> truthy (cryptocompare_data w) \<Longrightarrow> \<not> truthy (coingecko_data w) \<Longrightarrow>
     kraken_data w = Some kr_rows \<Longrightarrow> kr_rows \<noteq> [] \<Longrightarrow>
     df (provider_chain w) = convert_kraken_to_df kr_rows"
  "\<not> truthy (cryptocompare_data w) \<Longrightarrow> \<not> truthy (coingecko_data w) \<Longrightarrow>
     \<not> truthy (kraken_data w) \<Longrightarrow> coinbase_data w = Some cb_rows \<Longrightarrow> cb_rows \<noteq> [] \<Longrightarrow>
     df (provider_chain w) = convert_coinbase_to_df cb_rows"
proof -
  define st0 :: download_state where
    "st0 = \<lparr> success = False, df = [], effects = [Make_directory ''nautilus_data/historical''] \<rparr>"
  have chain: "provider_chain w =
      try_coinbase w (try_kraken w (try_coingecko w (try_cryptocompare w st0)))"
    by (simp add: provider_chain_def st0_def)
  have s0: "\<not> success st0" by (simp add: st0_def)
  {
    assume a: "cryptocompare_data w = Some cc_rows" "cc_rows \<noteq> []"
    have t: "truthy (cryptocompare_data w)" using a by (rule truthy_Some)
    have "success (try_cryptocompare w st0)" using try_cryptocompare_eq(1) [OF t] by simp
    then show "df (provider_chain w) = convert_cryptocompare_to_df cc_rows"
      using try_cryptocompare_rows [OF a]
      by (simp add: chain try_coingecko_eq(1) try_kraken_eq(1) try_coinbase_eq(1))
  }
  {
    assume cc: "\<not> truthy (cryptocompare_data w)"
    have s1: "\<not> success (try_cryptocompare w st0)"
      using try_cryptocompare_eq(2) [OF cc] s0 by simp
    {
      assume a: "coingecko_data w = Some cg_rows" "cg_rows \<noteq> []"
      have t: "truthy (coingecko_data w)" using a by (rule truthy_Some)
      have "success (try_coingecko w (try_cryptocompare w st0))"
        using try_coingecko_eq(2) [OF s1 t] by simp
      then show "df (provider_chain w) = convert_coingecko_to_df cg_rows"
        using try_coingecko_rows [OF s1 a]
        by (simp add: chain try_kraken_eq(1) try_coinbase_eq(1))
    }
    {
      assume cg: "\<not> truthy (coingecko_data w)"
      have s2: "\<not> success (try_coingecko w (try_cryptocompare w st0))"
        using try_coingecko_eq(3) [OF s1 cg] s1 by simp
      {
        assume a: "kraken_data w = Some kr_rows" "kr_rows \<noteq> []"
        have t: "truthy (kraken_data w)" using a by (rule truthy_Some)
        have "success (try_kraken w (try_coingecko w (try_cryptocompare w st0)))"
          using try_kraken_eq(2) [OF s2 t] by simp
        then show "df (provider_chain w) = convert_kraken_to_df kr_rows"
          using try_kraken_rows [OF s2 a]
          by (simp add: chain try_coinbase_eq(1))
      }
      {
        assume kr: "\<not> truthy (kraken_data w)"
        have s3: "\<not> success (try_kraken w (try_coingecko w (try_cryptocompare w st0)))"
          using try_kraken_eq(3) [OF s2 kr] s2 by simp
        {
          assume a: "coinbase_data w = Some cb_rows" "cb_rows \<noteq> []"
          show "df (provider_chain w) = convert_coinbase_to_df cb_rows"
            using try_coinbase_rows [OF s3 a] by (simp add: chain)
        }
      }
    }
  }
qed

lemma ohlc_file_written:
  "success (provider_chain w) \<Longrightarrow> df (provider_chain w) \<noteq> [] \<Longrightarrow>
     Write_file ''nautilus_data/historical/BTCUSDT_ohlc.csv'' (Ohlc_table (df (provider_chain w)))
       \<in> set (download_main w) \<and>
     Write_file ''nautilus_data/historical/BTCUSDT_quotes.csv''
       (Quote_table (create_quote_data_from_ohlc (df (provider_chain w))))
       \<in> set (download_main w) \<and>
     Write_file ''nautilus_data/historical/BTCUSDT_quotes.parquet''
       (Quote_table (create_quote_data_from_ohlc (df (provider_chain w))))
       \<in> set (download_main w)"
  by (simp add: download_main_def Let_def)

lemma chain_succeeds:
  "truthy (cryptocompare_data w) \<or> truthy (coingecko_data w) \<or>
   truthy (kraken_data w) \<or> truthy (coinbase_data w) \<Longrightarrow>
   success (provider_chain w) \<and> df (provider_chain w) \<noteq> []"
  using provider_chain_cases [of w] by blast

text \<open>
  C8.  \<open>main\<close> requests CryptoCompare first, and each of CoinGecko, Kraken and
  Coinbase, in that order, exactly when every provider before it gave \<open>None\<close> or no
  rows.  If some provider gave rows, the three output files are written and the failure
  advice is not printed; if none did, no file is written and the advice is printed.
  The OHLC file holds the converted rows of the first provider that gave any.
\<close>

theorem provider_fallback_chain:
  "requests (download_main w) =
     CryptoCompare #
     (if truthy (cryptocompare_data w) then []
      else CoinGecko #
        (if truthy (coingecko_data w) then []
         else Kraken #
           (if truthy (kraken_data w) then [] else [Coinbase]))) \<and>
   (if truthy (cryptocompare_data w) \<or> truthy (coingecko_data w) \<or>
       truthy (kraken_data w) \<or> truthy (coinbase_data w)
    then written_files (download_main w) =
           [''nautilus_data/historical/BTCUSDT_ohlc.csv'',
            ''nautilus_data/historical/BTCUSDT_quotes.csv'',
            ''nautilus_data/historical/BTCUSDT_quotes.parquet''] \<and>
         Print_failure_advice \<notin> set (download_main w)
    else written_files (download_main w) = [] \<and>
         Print_failure_advice \<in> set (download_main w)) \<and>
   (cryptocompare_data w = Some cc_rows \<and> cc_rows \<noteq> [] \<longrightarrow>
      Write_file ''nautilus_data/historical/BTCUSDT_ohlc.csv''
        (Ohlc_table (convert_cryptocompare_to_df cc_rows)) \<in> set (download_main w)) \<and>
   (\<not> truthy (cryptocompare_data w) \<and> coingecko_data w = Some cg_rows \<and> cg_rows \<noteq> [] \<longrightarrow>
      Write_file ''nautilus_data/historical/BTCUSDT_ohlc.csv''
        (Ohlc_table (convert_coingecko_to_df cg_rows)) \<in> set (download_main w)) \<and>
   (\<not> truthy (cryptocompare_data w) \<and> \<not> truthy (coingecko_data w) \<and>
    kraken_data w = Some kr_rows \<and> kr_rows \<noteq> [] \<longrightarrow>
      Write_file ''nautilus_data/historical/BTCUSDT_ohlc.csv''
        (Ohlc_table (convert_kraken_to_df kr_rows)) \<in> set (download_main w)) \<and>
   (\<not> truthy (cryptocompare_data w) \<and> \<not> truthy (coingecko_data w) \<and>
    \<not> truthy (kraken_data w) \<and> coinbase_data w = Some cb_rows \<and> cb_rows \<noteq> [] \<longrightarrow>
      Write_file ''nautilus_data/historical/BTCUSDT_ohlc.csv''
        (Ohlc_table (convert_coinbase_to_df cb_rows)) \<in> set (download_main w))"
proof -
  have order: "requests (download_main w) =
     CryptoCompare #
     (if truthy (cryptocompare_data w) then []
      else CoinGecko #
        (if truthy (coingecko_data w) then []
         else Kraken #
           (if truthy (kraken_data w) then [] else [Coinbase])))"
    using provider_chain_cases [of w]
    by (elim disjE conjE) (simp_all add: download_main_def requests_def Let_def)
  have files: "if truthy (cryptocompare_data w) \<or> truthy (coingecko_data w) \<or>
       truthy (kraken_data w) \<or> truthy (coinbase_data w)
    then written_files (download_main w) =
           [''nautilus_data/historical/BTCUSDT_ohlc.csv'',
            ''nautilus_data/historical/BTCUSDT_quotes.csv'',
            ''nautilus_data/historical/BTCUSDT_quotes.parquet''] \<and>
         Print_failure_advice \<notin> set (download_main w)
    else written_files (download_main w) = [] \<and>
         Print_failure_advice \<in> set (download_main w)"
    using provider_chain_cases [of w]
    by (elim disjE conjE) (simp_all add: download_main_def written_files_def Let_def)
  have cc: "Write_file ''nautilus_data/historical/BTCUSDT_ohlc.csv''
        (Ohlc_table (convert_cryptocompare_to_df cc_rows)) \<in> set (download_main w)"
    if "cryptocompare_data w = Some cc_rows \<and> cc_rows \<noteq> []"
  proof -
    from that have rows: "cryptocompare_data w = Some cc_rows" "cc_rows \<noteq> []" by simp_all
    then have "truthy (cryptocompare_data w)" by (rule truthy_Some)
    then have ok: "success (provider_chain w) \<and> df (provider_chain w) \<noteq> []"
      using chain_succeeds by blast
    from ohlc_file_written [of w] ok provider_chain_df(1) [OF rows] show ?thesis by simp
  qed
  have cg: "Write_file ''nautilus_data/historical/BTCUSDT_ohlc.csv''
        (Ohlc_table (convert_coingecko_to_df cg_rows)) \<in> set (download_main w)"
    if "\<not> truthy (cryptocompare_data w) \<and> coingecko_data w = Some cg_rows \<and> cg_rows \<noteq> []"
  proof -
    from that have no: "\<not> truthy (cryptocompare_data w)"
      and rows: "coingecko_data w = Some cg_rows" "cg_rows \<noteq> []" by simp_all
    from rows have "truthy (coingecko_data w)" by (rule truthy_Some)
    then have ok: "success (provider_chain w) \<and> df (provider_chain w) \<noteq> []"
      using chain_succeeds by blast
    from ohlc_file_written [of w] ok provider_chain_df(2) [OF no rows] show ?thesis by simp
  qed
  have kr: "Write_file ''nautilus_data/historical/BTCUSDT_ohlc.csv''
        (Ohlc_table (convert_kraken_to_df kr_rows)) \<in> set (download_main w)"
    if "\<not> truthy (cryptocompare_data w) \<and> \<not> truthy (coingecko_data w) \<and>
        kraken_data w = Some kr_rows \<and> kr_rows \<noteq> []"
  proof -
    from that have no: "\<not> truthy (cryptocompare_data w)" "\<not> truthy (coingecko_data w)"
      and rows: "kraken_data w = Some kr_rows" "kr_rows \<noteq> []" by simp_all
    from rows have "truthy (kraken_data w)" by (rule truthy_Some)
    then have ok: "success (provider_chain w) \<and> df (provider_chain w) \<noteq> []"
      using chain_succeeds by blast
    from ohlc_file_written [of w] ok provider_chain_df(3) [OF no rows] show ?thesis by simp
  qed
  have cb: "Write_file ''nautilus_data/historical/BTCUSDT_ohlc.csv''
        (Ohlc_table (convert_coinbase_to_df cb_rows)) \<in> set (download_main w)"
    if "\<not> truthy (cryptocompare_data w) \<and> \<not> truthy (coingecko_data w) \<and>
        \<not> truthy (kraken_data w) \<and> coinbase_data w = Some cb_rows \<and> cb_rows \<noteq> []"
  proof -
    from that have no: "\<not> truthy (cryptocompare_data w)" "\<not> truthy (coingecko_data w)"
        "\<not> truthy (kraken_data w)"
      and rows: "coinbase_data w = Some cb_rows" "cb_rows \<noteq> []" by simp_all
    from rows have "truthy (coinbase_data w)" by (rule truthy_Some)
    then have ok: "success (provider_chain w) \<and> df (provider_chain w) \<noteq> []"
      using chain_succeeds by blast
    from ohlc_file_written [of w] ok provider_chain_df(4) [OF no rows] show ?thesis by simp
  qed
  from order files cc cg kr cb show ?thesis by blast
qed

text \<open>
  The theorem where Kraken is the first to answer, and where nobody answers.
\<close>

theorem provider_fallback_chain_witness:
  "requests (download_main kraken_answers) = [CryptoCompare, CoinGecko, Kraken] \<and>
   written_files (download_main kraken_answers) =
     [''nautilus_data/historical/BTCUSDT_ohlc.csv'',
      ''nautilus_data/historical/BTCUSDT_quotes.csv'',
      ''nautilus_data/historical/BTCUSDT_quotes.parquet''] \<and>
   Write_file ''nautilus_data/historical/BTCUSDT_ohlc.csv''
     (Ohlc_table [\<lparr> bar_time = 0, bar_open = 42000, bar_high = 42010, bar_low = 41990,
                     bar_close = 42005, bar_volume = 3 \<rparr>]) \<in> set (download_main kraken_answers) \<and>
   requests (download_main nobody_answers) = [CryptoCompare, CoinGecko, Kraken, Coinbase] \<and>
   written_files (download_main nobody_answers) = []"
proof -
  define row where "row = \<lparr> kr_time = 0, kr_open = 42000, kr_high = 42010, kr_low = 41990,
                              kr_close = 42005, kr_vwap = 42001, kr_volume = 3, kr_count = 7 \<rparr>"
  have a: "\<not> truthy (cryptocompare_data kraken_answers)"
    "\<not> truthy (coingecko_data kraken_answers)" "truthy (kraken_data kraken_answers)"
    "kraken_data kraken_answers = Some [row]" "[row] \<noteq> []"
    by (simp_all add: kraken_answers_def truthy_def row_def)
  have b: "\<not> truthy (cryptocompare_data nobody_answers)"
    "\<not> truthy (coingecko_data nobody_answers)" "\<not> truthy (kraken_data nobody_answers)"
    "\<not> truthy (coinbase_data nobody_answers)"
    by (simp_all add: nobody_answers_def truthy_def)
  from provider_fallback_chain [of kraken_answers _ _ "[row]"] a
  have one: "requests (download_main kraken_answers) = [CryptoCompare, CoinGecko, Kraken] \<and>
     written_files (download_main kraken_answers) =
       [''nautilus_data/historical/BTCUSDT_ohlc.csv'',
        ''nautilus_data/historical/BTCUSDT_quotes.csv'',
        ''nautilus_data/historical/BTCUSDT_quotes.parquet''] \<and>
     Write_file ''nautilus_data/historical/BTCUSDT_ohlc.csv''
       (Ohlc_table (convert_kraken_to_df [row])) \<in> set (download_main kraken_answers)"
    by simp
  from provider_fallback_chain [of nobody_answers] b
  have two: "requests (download_main nobody_answers) =
       [CryptoCompare, CoinGecko, Kraken, Coinbase] \<and>
     written_files (download_main nobody_answers) = []"
    by simp
  from one two show ?thesis by (simp add: convert_kraken_to_df_def row_def)
qed

section \<open>The suggested and the used grid bounds\<close>




end
